theory Spec2Isabelle
  imports Complex_Main "HOL-Library.Sublist"
begin

section \<open>Errors, tensors and parameters\<close>

text \<open>
  Exceptions of the Python source are values; a computation that may raise returns
  \<open>error + 'a\<close>, with \<open>Inl\<close> for the exception.
\<close>

datatype error =
    ValueError | TypeError | RuntimeError | IndexError | AttributeError
  | AssertionError | NotImplementedError | ZeroDivisionError

definition bind_err :: "error + 'a \<Rightarrow> ('a \<Rightarrow> error + 'b) \<Rightarrow> error + 'b" where
  "bind_err r f = (case r of Inl e \<Rightarrow> Inl e | Inr v \<Rightarrow> f v)"

text \<open>
  A tensor is its shape and its elements in row-major order. Elements are taken from an
  arbitrary type with \<open>0\<close>, \<open>1\<close>, \<open>+\<close> and \<open>*\<close>; the rounding of a float dtype is
  not part of the model.
\<close>

datatype 'a tensor = Tensor (shape: "nat list") (elems: "'a list")

definition numel :: "nat list \<Rightarrow> nat" where
  "numel shp = prod_list shp"

definition wf_tensor :: "'a tensor \<Rightarrow> bool" where
  "wf_tensor t = (length (elems t) = numel (shape t))"

definition zeros :: "nat list \<Rightarrow> 'a::zero tensor" where
  "zeros shp = Tensor shp (replicate (numel shp) 0)"

definition ones :: "nat list \<Rightarrow> 'a::one tensor" where
  "ones shp = Tensor shp (replicate (numel shp) 1)"

text \<open>
  \<open>empty\<close> followed by a random initialiser: the values come from \<open>g\<close>, which stands
  for the random number generator.
\<close>

definition randn :: "(nat \<Rightarrow> 'a) \<Rightarrow> nat list \<Rightarrow> 'a tensor" where
  "randn g shp = Tensor shp (map g [0..<numel shp])"

text \<open>\<open>t.size(d)\<close> for a non-negative \<open>d\<close>.\<close>

definition size_dim :: "'a tensor \<Rightarrow> nat \<Rightarrow> error + nat" where
  "size_dim t d = (if d < length (shape t) then Inr (shape t ! d) else Inl IndexError)"

text \<open>
  \<open>t.permute(0, 2, 1, 3)\<close>: defined on tensors of rank 4 only; the element at
  \<open>(i, j, k, l)\<close> of the result is the element at \<open>(i, k, j, l)\<close> of \<open>t\<close>.
\<close>

definition permute_0213 :: "'a tensor \<Rightarrow> error + 'a tensor" where
  "permute_0213 t =
     (case shape t of
        [s0, s1, s2, s3] \<Rightarrow>
          Inr (Tensor [s0, s2, s1, s3]
                 (concat (map (\<lambda>i. concat (map (\<lambda>j. concat (map (\<lambda>k.
                    map (\<lambda>l. elems t ! (((i * s1 + k) * s2 + j) * s3 + l)) [0..<s3])
                  [0..<s1])) [0..<s2])) [0..<s0])))
      | _ \<Rightarrow> Inl RuntimeError)"

text \<open>
  Broadcasting a binary operation between a tensor of shape \<open>(..., m)\<close> and a vector of
  shape \<open>(n)\<close>: the sizes must agree or one of them must be 1.
\<close>

definition broadcast_last ::
  "('a \<Rightarrow> 'a \<Rightarrow> 'a) \<Rightarrow> 'a tensor \<Rightarrow> 'a tensor \<Rightarrow> error + 'a tensor" where
  "broadcast_last f t v =
     (case shape v of
        [n] \<Rightarrow>
          (let m = (if shape t = [] then 1 else last (shape t));
               lead = butlast (shape t)
           in if m = n \<or> n = 1 then
                Inr (Tensor (shape t)
                       (map (\<lambda>i. f (elems t ! i) (elems v ! (i mod n))) [0..<numel (shape t)]))
              else if m = 1 then
                Inr (Tensor (lead @ [n])
                       (map (\<lambda>i. f (elems t ! (i div n)) (elems v ! (i mod n)))
                          [0..<numel (lead @ [n])]))
              else Inl RuntimeError)
      | _ \<Rightarrow> Inl RuntimeError)"

record 'a Parameter =
  pdata :: "'a tensor"
  requires_grad :: bool

text \<open>\<open>torch.nn.Parameter(data, requires_grad=True)\<close>.\<close>

definition Parameter :: "'a tensor \<Rightarrow> bool \<Rightarrow> 'a Parameter" where
  "Parameter d rg = \<lparr>pdata = d, requires_grad = rg\<rparr>"

section \<open>Modules\<close>

text \<open>
  A module is its class, its registered parameters and its registered submodules, both
  in registration order, and its plain attributes.
\<close>

datatype module_class =
    C_Linear | C_Embedding | C_LayerNorm | C_RMSNorm | C_Identity
  | C_ModuleList | C_ModuleDict
  | C_AdapterV2Linear | C_GPT | C_Block | C_CausalSelfAttention
  | C_GptNeoxMLP | C_LLaMAMLP | C_GemmaMLP | C_LLaMAMoE

text \<open>
  The configuration. Its declaration is inherited from the base configuration; the fields
  are those that the constructors and the forward pass read. \<open>norm_class\<close> and
  \<open>mlp_class_name\<close> range over the classes the configuration can name.
\<close>

datatype norm_class = LayerNorm_class | RMSNorm_class

datatype mlp_class_name = GptNeoxMLP_name | LLaMAMLP_name | GemmaMLP_name | LLaMAMoE_name

record Config =
  n_embd :: nat
  padded_vocab_size :: "nat option"
  lm_head_bias :: bool
  n_layer :: nat
  norm_class :: norm_class
  norm_eps :: real
  block_size :: int
  scale_embeddings :: bool
  final_logit_softcapping :: "real option"
  parallel_residual :: bool
  shared_attention_norm :: bool
  post_attention_norm :: bool
  post_mlp_norm :: bool
  mlp_class_name :: mlp_class_name
  n_head :: nat
  n_query_groups :: nat
  head_size :: nat
  bias :: bool
  attn_bias :: bool
  adapter_start_layer :: int
  adapter_prompt_length :: nat
  sliding_window_size :: "nat option"
  sliding_window_layer_stride :: int
  intermediate_size :: nat
  n_expert :: nat

datatype attr = NoneV | BoolV bool | IntV int | FloatV real | ConfigV Config

datatype 'a module =
  Module (cls: module_class)
         (params: "(string \<times> 'a Parameter) list")
         (children: "(string \<times> 'a module) list")
         (attrs: "(string \<times> attr) list")

definition get_param :: "'a module \<Rightarrow> string \<Rightarrow> error + 'a Parameter" where
  "get_param m n = (case map_of (params m) n of None \<Rightarrow> Inl AttributeError | Some p \<Rightarrow> Inr p)"

definition get_child :: "'a module \<Rightarrow> string \<Rightarrow> error + 'a module" where
  "get_child m n = (case map_of (children m) n of None \<Rightarrow> Inl AttributeError | Some c \<Rightarrow> Inr c)"

definition hasattr :: "'a module \<Rightarrow> string \<Rightarrow> bool" where
  "hasattr m n =
     (n \<in> set (map fst (params m)) \<or> n \<in> set (map fst (children m))
      \<or> n \<in> set (map fst (attrs m)))"

subsection \<open>The framework's layers\<close>

text \<open>
  \<open>torch.nn.Linear(in_features, out_features, bias)\<close>: a weight of shape
  \<open>(out_features, in_features)\<close> and, when \<open>bias\<close> is set, a bias of shape
  \<open>(out_features)\<close>; both trainable, randomly initialised.
\<close>

definition Linear :: "(nat \<Rightarrow> 'a) \<Rightarrow> nat \<Rightarrow> nat \<Rightarrow> bool \<Rightarrow> 'a module" where
  "Linear g in_features out_features use_bias =
     Module C_Linear
       ((''weight'', Parameter (randn g [out_features, in_features]) True)
        # (if use_bias then [(''bias'', Parameter (randn g [out_features]) True)] else []))
       [] []"

text \<open>
  The forward pass of \<open>torch.nn.Linear\<close> on an input of shape \<open>(..., in_features)\<close>:
  row \<open>r\<close> of the input gives row \<open>r\<close> of the output,
  \<open>y[r][o] = sum_k x[r][k] * weight[o][k] (+ bias[o])\<close>.
\<close>

definition dot :: "'a::semiring_1 list \<Rightarrow> 'a list \<Rightarrow> 'a" where
  "dot xs ys = sum_list (map2 (*) xs ys)"

definition row :: "nat \<Rightarrow> 'a list \<Rightarrow> nat \<Rightarrow> 'a list" where
  "row width xs r = take width (drop (r * width) xs)"

definition Linear_forward :: "'a::semiring_1 module \<Rightarrow> 'a tensor \<Rightarrow> error + 'a tensor" where
  "Linear_forward m x =
     bind_err (get_param m ''weight'') (\<lambda>w.
       case shape (pdata w) of
         [nout, nin] \<Rightarrow>
           if shape x = [] \<or> last (shape x) \<noteq> nin then Inl RuntimeError
           else
             let lead = butlast (shape x);
                 b = (case map_of (params m) ''bias'' of
                        None \<Rightarrow> (\<lambda>j. 0)
                      | Some p \<Rightarrow> (\<lambda>j. elems (pdata p) ! j))
             in Inr (Tensor (lead @ [nout])
                  (concat (map (\<lambda>r. map (\<lambda>j.
                       dot (row nin (elems x) r) (row nin (elems (pdata w)) j) + b j)
                     [0..<nout]) [0..<numel lead])))
       | _ \<Rightarrow> Inl RuntimeError)"

text \<open>
  \<open>torch.nn.Embedding(num_embeddings, embedding_dim)\<close>, \<open>torch.nn.LayerNorm(size, eps)\<close>,
  the base model's \<open>RMSNorm(size, eps)\<close> and \<open>torch.nn.Identity()\<close>, with the parameters
  they register.
\<close>

definition Embedding :: "(nat \<Rightarrow> 'a) \<Rightarrow> nat \<Rightarrow> nat \<Rightarrow> 'a module" where
  "Embedding g num_embeddings embedding_dim =
     Module C_Embedding
       [(''weight'', Parameter (randn g [num_embeddings, embedding_dim]) True)] [] []"

definition LayerNorm :: "nat \<Rightarrow> real \<Rightarrow> 'a::semiring_1 module" where
  "LayerNorm sz eps =
     Module C_LayerNorm
       [(''weight'', Parameter (ones [sz]) True), (''bias'', Parameter (zeros [sz]) True)]
       [] [(''eps'', FloatV eps)]"

definition RMSNorm :: "nat \<Rightarrow> real \<Rightarrow> 'a::semiring_1 module" where
  "RMSNorm sz eps =
     Module C_RMSNorm [(''weight'', Parameter (ones [sz]) True)] [] [(''eps'', FloatV eps)]"

definition Identity :: "'a module" where
  "Identity = Module C_Identity [] [] []"

text \<open>\<open>config.norm_class(size, eps=...)\<close>\<close>

definition norm_layer :: "Config \<Rightarrow> nat \<Rightarrow> real \<Rightarrow> 'a::semiring_1 module" where
  "norm_layer config sz eps =
     (case norm_class config of
        LayerNorm_class \<Rightarrow> LayerNorm sz eps
      | RMSNorm_class \<Rightarrow> RMSNorm sz eps)"

text \<open>\<open>torch.nn.ModuleList\<close>: the submodules are registered under \<open>str(0)\<close>, \<open>str(1)\<close>, ...\<close>

definition digit_char :: "nat \<Rightarrow> char" where
  "digit_char d = char_of (48 + d)"

fun str_nat :: "nat \<Rightarrow> string" where
  "str_nat n = (if n < 10 then [digit_char n] else str_nat (n div 10) @ [digit_char (n mod 10)])"

declare str_nat.simps [simp del]

definition ModuleList :: "'a module list \<Rightarrow> 'a module" where
  "ModuleList ms = Module C_ModuleList [] (map (\<lambda>i. (str_nat i, ms ! i)) [0..<length ms]) []"

definition ModuleDict :: "(string \<times> 'a module) list \<Rightarrow> 'a module" where
  "ModuleDict kvs = Module C_ModuleDict [] kvs []"

subsection \<open>Named parameters\<close>

text \<open>
  \<open>module.named_parameters()\<close>: the parameters of the module itself, then those of its
  submodules in registration order, each under its dotted path. Every parameter of a
  constructed model is registered once, so no duplicate is dropped.
\<close>

definition join_name :: "string \<Rightarrow> string \<Rightarrow> string" where
  "join_name pfx n = (if pfx = [] then n else pfx @ ''.'' @ n)"

fun named_parameters_from :: "string \<Rightarrow> 'a module \<Rightarrow> (string \<times> 'a Parameter) list" where
  "named_parameters_from pfx (Module c ps cs ats) =
     map (\<lambda>np. (join_name pfx (fst np), snd np)) ps
     @ concat (map (\<lambda>nm. named_parameters_from (join_name pfx (fst nm)) (snd nm)) cs)"

definition named_parameters :: "'a module \<Rightarrow> (string \<times> 'a Parameter) list" where
  "named_parameters m = named_parameters_from [] m"

section \<open>AdapterV2Linear\<close>

definition AdapterV2Linear :: "(nat \<Rightarrow> 'a) \<Rightarrow> nat \<Rightarrow> nat \<Rightarrow> bool \<Rightarrow> 'a::semiring_1 module" where
  "AdapterV2Linear g in_features out_features use_bias =
     Module C_AdapterV2Linear
       [(''adapter_bias'', Parameter (zeros [out_features]) False),
        (''adapter_scale'', Parameter (ones [out_features]) False)]
       [(''linear'', Linear g in_features out_features use_bias)]
       []"

definition AdapterV2Linear_forward ::
  "'a::semiring_1 module \<Rightarrow> 'a tensor \<Rightarrow> error + 'a tensor" where
  "AdapterV2Linear_forward self x =
     bind_err (get_param self ''adapter_scale'') (\<lambda>scale.
     bind_err (get_child self ''linear'') (\<lambda>lin.
     bind_err (Linear_forward lin x) (\<lambda>y.
     bind_err (get_param self ''adapter_bias'') (\<lambda>b.
     bind_err (broadcast_last (+) y (pdata b)) (\<lambda>s.
       broadcast_last (\<lambda>a c. c * a) s (pdata scale))))))"

text \<open>\<open>nn.init.zeros_\<close> and \<open>nn.init.ones_\<close> fill a parameter in place.\<close>

definition init_zeros :: "'a::zero Parameter \<Rightarrow> 'a Parameter" where
  "init_zeros p = p\<lparr>pdata := zeros (shape (pdata p))\<rparr>"

definition init_ones :: "'a::one Parameter \<Rightarrow> 'a Parameter" where
  "init_ones p = p\<lparr>pdata := ones (shape (pdata p))\<rparr>"

definition set_param :: "'a module \<Rightarrow> string \<Rightarrow> 'a Parameter \<Rightarrow> 'a module" where
  "set_param m n p =
     Module (cls m) (map (\<lambda>(k, q). if k = n then (k, p) else (k, q)) (params m))
       (children m) (attrs m)"

definition reset_parameters :: "'a::semiring_1 module \<Rightarrow> error + 'a module" where
  "reset_parameters self =
     bind_err (get_param self ''adapter_bias'') (\<lambda>b.
       let self1 = set_param self ''adapter_bias'' (init_zeros b)
       in bind_err (get_param self1 ''adapter_scale'') (\<lambda>s.
            Inr (set_param self1 ''adapter_scale'' (init_ones s))))"

section \<open>Selecting the trainable parameters\<close>

definition adapter_substrings :: "string list" where
  "adapter_substrings =
     [''adapter_wte'', ''gating_factor'', ''adapter_scale'', ''adapter_bias'',
      ''norm_1'', ''norm_2'', ''ln_f'']"

text \<open>\<open>s in key\<close> on Python strings is \<^const>\<open>sublist\<close>.\<close>

definition adapter_filter :: "string \<Rightarrow> 'v \<Rightarrow> bool" where
  "adapter_filter key v = list_ex (\<lambda>s. sublist s key) adapter_substrings"

text \<open>
  \<open>mark_only_adapter_v2_as_trainable\<close> visits the parameters as \<open>named_parameters\<close>
  enumerates them and assigns \<open>requires_grad\<close> of each in place; the model returns the
  module with every parameter updated at its place.
\<close>

fun mark_from :: "string \<Rightarrow> 'a module \<Rightarrow> 'a module" where
  "mark_from pfx (Module c ps cs ats) =
     Module c
       (map (\<lambda>np. (fst np,
                    (snd np)\<lparr>requires_grad := adapter_filter (join_name pfx (fst np)) (snd np)\<rparr>)) ps)
       (map (\<lambda>nm. (fst nm, mark_from (join_name pfx (fst nm)) (snd nm))) cs)
       ats"

text \<open>
  The named parameters that belong to a \<open>torch.nn.Linear\<close>: the weights and biases of the
  wrapped projections, under the names \<open>named_parameters\<close> gives them.
\<close>

fun linear_parameters_from :: "string \<Rightarrow> 'a module \<Rightarrow> (string \<times> 'a Parameter) list" where
  "linear_parameters_from pfx (Module c ps cs ats) =
     (if c = C_Linear then map (\<lambda>np. (join_name pfx (fst np), snd np)) ps else [])
     @ concat (map (\<lambda>nm. linear_parameters_from (join_name pfx (fst nm)) (snd nm)) cs)"

definition linear_parameters :: "'a module \<Rightarrow> (string \<times> 'a Parameter) list" where
  "linear_parameters m = linear_parameters_from [] m"

text \<open>The assignment that \<open>mark_only_adapter_v2_as_trainable\<close> makes to one named parameter.\<close>

definition set_rg :: "string \<times> 'a Parameter \<Rightarrow> string \<times> 'a Parameter" where
  "set_rg np = (fst np, (snd np)\<lparr>requires_grad := adapter_filter (fst np) (snd np)\<rparr>)"

text \<open>No name of a parameter of a projection contains an adapter substring.\<close>

definition clean :: "string \<Rightarrow> 'a module \<Rightarrow> bool" where
  "clean pfx m = (\<forall>np \<in> set (linear_parameters_from pfx m). \<not> adapter_filter (fst np) (snd np))"

section \<open>The attention module, the MLPs and the block\<close>

fun sequence_err :: "(error + 'a) list \<Rightarrow> error + 'a list" where
  "sequence_err [] = Inr []"
| "sequence_err (r # rs) =
     (case r of
        Inl e \<Rightarrow> Inl e
      | Inr v \<Rightarrow> (case sequence_err rs of Inl e \<Rightarrow> Inl e | Inr vs \<Rightarrow> Inr (v # vs)))"

definition CausalSelfAttention ::
  "(nat \<Rightarrow> 'a) \<Rightarrow> Config \<Rightarrow> int \<Rightarrow> error + 'a::semiring_1 module" where
  "CausalSelfAttention g config block_idx =
     (let qkv_shape = (n_head config + 2 * n_query_groups config) * head_size config;
          qkv = AdapterV2Linear g (n_embd config) qkv_shape (bias config \<or> attn_bias config);
          proj = AdapterV2Linear g (head_size config * n_head config) (n_embd config) (bias config);
          adapted = (block_idx \<ge> adapter_start_layer config)
      in if sliding_window_size config \<noteq> None \<and> sliding_window_layer_stride config = 0
         then Inl ZeroDivisionError
         else Inr (Module C_CausalSelfAttention
           (if adapted
            then [(''gating_factor'', Parameter (zeros [1, 1, n_head config, 1]) True)] else [])
           ([(''qkv'', qkv), (''proj'', proj)]
            @ (if adapted
               then [(''adapter_wte'', Embedding g (adapter_prompt_length config) (n_embd config))]
               else []))
           ([(''kv_cache'', NoneV)]
            @ (if adapted then [(''adapter_kv_cache'', NoneV)] else [])
            @ [(''block_idx'', IntV block_idx),
               (''apply_sliding_window_attention'',
                  BoolV (sliding_window_size config \<noteq> None
                         \<and> block_idx mod sliding_window_layer_stride config = 0)),
               (''config'', ConfigV config)])))"

definition GptNeoxMLP :: "(nat \<Rightarrow> 'a) \<Rightarrow> Config \<Rightarrow> 'a::semiring_1 module" where
  "GptNeoxMLP g config =
     Module C_GptNeoxMLP []
       [(''fc'', AdapterV2Linear g (n_embd config) (intermediate_size config) (bias config)),
        (''proj'', AdapterV2Linear g (intermediate_size config) (n_embd config) (bias config))]
       [(''config'', ConfigV config)]"

text \<open>\<open>GemmaMLP\<close> inherits the constructor of \<open>LLaMAMLP\<close>; only the class differs.\<close>

definition LLaMAMLP_init :: "module_class \<Rightarrow> (nat \<Rightarrow> 'a) \<Rightarrow> Config \<Rightarrow> 'a::semiring_1 module" where
  "LLaMAMLP_init c g config =
     Module c []
       [(''fc_1'', AdapterV2Linear g (n_embd config) (intermediate_size config) (bias config)),
        (''fc_2'', AdapterV2Linear g (n_embd config) (intermediate_size config) (bias config)),
        (''proj'', AdapterV2Linear g (intermediate_size config) (n_embd config) (bias config))]
       [(''config'', ConfigV config)]"

definition LLaMAMLP :: "(nat \<Rightarrow> 'a) \<Rightarrow> Config \<Rightarrow> 'a::semiring_1 module" where
  "LLaMAMLP = LLaMAMLP_init C_LLaMAMLP"

definition GemmaMLP :: "(nat \<Rightarrow> 'a) \<Rightarrow> Config \<Rightarrow> 'a::semiring_1 module" where
  "GemmaMLP = LLaMAMLP_init C_GemmaMLP"

definition LLaMAMoE :: "(nat \<Rightarrow> 'a) \<Rightarrow> Config \<Rightarrow> 'a::semiring_1 module" where
  "LLaMAMoE g config =
     Module C_LLaMAMoE []
       [(''gate'', AdapterV2Linear g (n_embd config) (n_expert config) False),
        (''experts'', ModuleList (map (\<lambda>_. LLaMAMLP g config) [0..<n_expert config]))]
       [(''config'', ConfigV config)]"

text \<open>\<open>config.mlp_class\<close>: the class of this file that \<open>mlp_class_name\<close> names.\<close>

definition mlp_class :: "Config \<Rightarrow> (nat \<Rightarrow> 'a) \<Rightarrow> Config \<Rightarrow> 'a::semiring_1 module" where
  "mlp_class config =
     (case mlp_class_name config of
        GptNeoxMLP_name \<Rightarrow> GptNeoxMLP
      | LLaMAMLP_name \<Rightarrow> LLaMAMLP
      | GemmaMLP_name \<Rightarrow> GemmaMLP
      | LLaMAMoE_name \<Rightarrow> LLaMAMoE)"

definition Block :: "(nat \<Rightarrow> 'a) \<Rightarrow> Config \<Rightarrow> int \<Rightarrow> error + 'a::semiring_1 module" where
  "Block g config block_idx =
     (if \<not> parallel_residual config \<and> shared_attention_norm config then Inl NotImplementedError
      else
        bind_err (CausalSelfAttention g config block_idx) (\<lambda>attn.
          Inr (Module C_Block []
            ([(''norm_1'', norm_layer config (n_embd config) (norm_eps config)),
              (''attn'', attn),
              (''post_attention_norm'',
                 if post_attention_norm config
                 then norm_layer config (n_embd config) (norm_eps config) else Identity)]
             @ (if shared_attention_norm config then []
                else [(''norm_2'', norm_layer config (n_embd config) (norm_eps config))])
             @ [(''mlp'', mlp_class config g config),
                (''post_mlp_norm'',
                   if post_mlp_norm config
                   then norm_layer config (n_embd config) (norm_eps config) else Identity)])
            ((if shared_attention_norm config then [(''norm_2'', NoneV)] else [])
             @ [(''config'', ConfigV config)]))))"

section \<open>The model\<close>

text \<open>
  The fields of a \<open>GPT\<close> instance that this file reads or writes. \<open>cos_buf\<close> and \<open>sin_buf\<close>
  are the buffers \<open>cos\<close> and \<open>sin\<close>, which the inherited setter of \<open>max_seq_length\<close>
  fills from the inherited \<open>rope_cache\<close>; that method is a parameter here.
\<close>

record 'a GPT =
  config :: Config
  lm_head :: "'a module"
  transformer :: "'a module"
  max_seq_length :: int
  mask_cache :: "'a tensor option"
  cos_buf :: "'a tensor"
  sin_buf :: "'a tensor"

definition GPT ::
  "(Config \<Rightarrow> int \<Rightarrow> 'a tensor \<times> 'a tensor) \<Rightarrow> (nat \<Rightarrow> 'a) \<Rightarrow> Config
     \<Rightarrow> error + 'a::semiring_1 GPT" where
  "GPT rope_cache g cfg =
     (case padded_vocab_size cfg of
        None \<Rightarrow> Inl AssertionError
      | Some vocab \<Rightarrow>
          bind_err (sequence_err (map (\<lambda>i. Block g cfg (int i)) [0..<n_layer cfg])) (\<lambda>blocks.
            Inr \<lparr>config = cfg,
                 lm_head = AdapterV2Linear g (n_embd cfg) vocab (lm_head_bias cfg),
                 transformer = ModuleDict
                   [(''wte'', Embedding g vocab (n_embd cfg)),
                    (''h'', ModuleList blocks),
                    (''ln_f'', norm_layer cfg (n_embd cfg) (norm_eps cfg))],
                 max_seq_length = block_size cfg,
                 mask_cache = None,
                 cos_buf = fst (rope_cache cfg (block_size cfg)),
                 sin_buf = snd (rope_cache cfg (block_size cfg))\<rparr>))"

text \<open>The instance as a module: its registered submodules.\<close>

definition GPT_module :: "'a GPT \<Rightarrow> 'a module" where
  "GPT_module model =
     Module C_GPT [] [(''lm_head'', lm_head model), (''transformer'', transformer model)] []"

definition mark_only_adapter_v2_as_trainable :: "'a GPT \<Rightarrow> 'a GPT" where
  "mark_only_adapter_v2_as_trainable model =
     model\<lparr>lm_head := mark_from ''lm_head'' (lm_head model),
           transformer := mark_from ''transformer'' (transformer model)\<rparr>"

text \<open>\<open>model.transformer.h[i].attn\<close>\<close>

definition block_attn :: "'a GPT \<Rightarrow> nat \<Rightarrow> error + 'a module" where
  "block_attn model i =
     bind_err (get_child (transformer model) ''h'') (\<lambda>h.
       if i < length (children h) then get_child (snd (children h ! i)) ''attn''
       else Inl IndexError)"

text \<open>\<open>model.transformer.h[i].mlp\<close>\<close>

definition block_mlp :: "'a GPT \<Rightarrow> nat \<Rightarrow> error + 'a module" where
  "block_mlp model i =
     bind_err (get_child (transformer model) ''h'') (\<lambda>h.
       if i < length (children h) then get_child (snd (children h ! i)) ''mlp''
       else Inl IndexError)"

text \<open>\<open>isinstance(getattr(m, n), AdapterV2Linear)\<close>, false when the attribute is missing.\<close>

definition is_AdapterV2Linear :: "'a module \<Rightarrow> string \<Rightarrow> bool" where
  "is_AdapterV2Linear m n =
     (case map_of (children m) n of None \<Rightarrow> False | Some c \<Rightarrow> cls c = C_AdapterV2Linear)"

text \<open>
  Every \<open>torch.nn.Linear\<close> below a module is the attribute \<open>linear\<close> of an
  \<open>AdapterV2Linear\<close>.
\<close>

fun linears_wrapped :: "'a module \<Rightarrow> bool" where
  "linears_wrapped (Module c ps cs ats) =
     list_all (\<lambda>nm. (cls (snd nm) = C_Linear \<longrightarrow> c = C_AdapterV2Linear \<and> fst nm = ''linear'')
                    \<and> linears_wrapped (snd nm)) cs"

text \<open>The projections of an MLP of the configured class are \<open>AdapterV2Linear\<close> instances.\<close>

definition mlp_projections_adapted :: "Config \<Rightarrow> 'a module \<Rightarrow> bool" where
  "mlp_projections_adapted cfg mlp =
     (case mlp_class_name cfg of
        GptNeoxMLP_name \<Rightarrow> is_AdapterV2Linear mlp ''fc'' \<and> is_AdapterV2Linear mlp ''proj''
      | LLaMAMoE_name \<Rightarrow>
          is_AdapterV2Linear mlp ''gate''
          \<and> (case map_of (children mlp) ''experts'' of
                None \<Rightarrow> False
              | Some experts \<Rightarrow>
                  length (children experts) = n_expert cfg
                  \<and> list_all (\<lambda>ne. is_AdapterV2Linear (snd ne) ''fc_1''
                                   \<and> is_AdapterV2Linear (snd ne) ''fc_2''
                                   \<and> is_AdapterV2Linear (snd ne) ''proj'') (children experts))
      | _ \<Rightarrow> is_AdapterV2Linear mlp ''fc_1'' \<and> is_AdapterV2Linear mlp ''fc_2''
             \<and> is_AdapterV2Linear mlp ''proj'')"

section \<open>Loading checkpoints\<close>

text \<open>A state dict maps parameter names to tensors.\<close>

type_synonym 'a state_dict = "string \<rightharpoonup> 'a tensor"

text \<open>
  Modelled from the spec: \<open>map_old_state_dict_weights\<close> (imported from the package's
  utilities) is not in the sources. By the spec it remaps checkpoint keys for backward
  compatibility: for each entry \<open>old \<mapsto> new\<close> of the mapping, in order, a tensor stored
  under \<open>prefix + old\<close> is removed and stored under \<open>prefix + new\<close>.
\<close>

fun map_old_state_dict_weights ::
  "'a state_dict \<Rightarrow> (string \<times> string) list \<Rightarrow> string \<Rightarrow> 'a state_dict" where
  "map_old_state_dict_weights sd [] pfx = sd"
| "map_old_state_dict_weights sd (e # rest) pfx =
     (case sd (pfx @ fst e) of
        None \<Rightarrow> map_old_state_dict_weights sd rest pfx
      | Some v \<Rightarrow>
          map_old_state_dict_weights ((sd(pfx @ fst e := None))(pfx @ snd e \<mapsto> v)) rest pfx)"

text \<open>The \<open>mapping\<close> dictionaries of the five \<open>_load_from_state_dict\<close> methods.\<close>

definition GPT_mapping :: "(string \<times> string) list" where
  "GPT_mapping =
     [(''lm_head.weight'', ''lm_head.linear.weight''), (''lm_head.bias'', ''lm_head.linear.bias'')]"

definition CausalSelfAttention_mapping :: "(string \<times> string) list" where
  "CausalSelfAttention_mapping =
     [(''qkv.weight'', ''qkv.linear.weight''), (''qkv.bias'', ''qkv.linear.bias''),
      (''proj.weight'', ''proj.linear.weight''), (''proj.bias'', ''proj.linear.bias'')]"

definition GptNeoxMLP_mapping :: "(string \<times> string) list" where
  "GptNeoxMLP_mapping =
     [(''fc.weight'', ''fc.linear.weight''), (''fc.bias'', ''fc.linear.bias''),
      (''proj.weight'', ''proj.linear.weight''), (''proj.bias'', ''proj.linear.bias'')]"

definition LLaMAMLP_mapping :: "(string \<times> string) list" where
  "LLaMAMLP_mapping =
     [(''fc_1.weight'', ''fc_1.linear.weight''), (''fc_1.bias'', ''fc_1.linear.bias''),
      (''fc_2.weight'', ''fc_2.linear.weight''), (''fc_2.bias'', ''fc_2.linear.bias''),
      (''proj.weight'', ''proj.linear.weight''), (''proj.bias'', ''proj.linear.bias'')]"

definition LLaMAMoE_mapping :: "(string \<times> string) list" where
  "LLaMAMoE_mapping = [(''gate.weight'', ''gate.linear.weight'')]"

text \<open>
  The same tensors under the new names, as the spec words the remapping: for a list of
  renamings \<open>old \<mapsto> new\<close>, the state dict that has nothing under an old name, has under a
  new name the tensor that was stored under its old name (or, when there was none, what
  was stored under the new name already), and is unchanged at every other key. The
  loaders are compared with it.
\<close>

definition rename_keys ::
  "(string \<times> string) list \<Rightarrow> string \<Rightarrow> 'a state_dict \<Rightarrow> 'a state_dict" where
  "rename_keys rn pfx sd k =
     (if k \<in> set (map (\<lambda>e. pfx @ fst e) rn) then None
      else case find (\<lambda>e. k = pfx @ snd e) rn of
             None \<Rightarrow> sd k
           | Some e \<Rightarrow> (case sd (pfx @ fst e) of None \<Rightarrow> sd k | Some v \<Rightarrow> Some v))"

text \<open>
  The methods remap the keys of the state dict in place and hand it to the inherited
  loader \<open>super_load\<close> (the framework's \<open>Module._load_from_state_dict\<close>); they return the state
  dict as the caller sees it afterwards and the instance as \<open>super_load\<close> leaves it.
\<close>

definition GPT_load_from_state_dict ::
  "('s \<Rightarrow> 'a state_dict \<Rightarrow> string \<Rightarrow> 's) \<Rightarrow> 's \<Rightarrow> 'a state_dict \<Rightarrow> string
     \<Rightarrow> 'a state_dict \<times> 's" where
  "GPT_load_from_state_dict super_load self state_dict pfx =
     (let sd = map_old_state_dict_weights state_dict GPT_mapping pfx
      in (sd, super_load self sd pfx))"

definition GptNeoxMLP_load_from_state_dict ::
  "('s \<Rightarrow> 'a state_dict \<Rightarrow> string \<Rightarrow> 's) \<Rightarrow> 's \<Rightarrow> 'a state_dict \<Rightarrow> string
     \<Rightarrow> 'a state_dict \<times> 's" where
  "GptNeoxMLP_load_from_state_dict super_load self state_dict pfx =
     (let sd = map_old_state_dict_weights state_dict GptNeoxMLP_mapping pfx
      in (sd, super_load self sd pfx))"

definition LLaMAMLP_load_from_state_dict ::
  "('s \<Rightarrow> 'a state_dict \<Rightarrow> string \<Rightarrow> 's) \<Rightarrow> 's \<Rightarrow> 'a state_dict \<Rightarrow> string
     \<Rightarrow> 'a state_dict \<times> 's" where
  "LLaMAMLP_load_from_state_dict super_load self state_dict pfx =
     (let sd = map_old_state_dict_weights state_dict LLaMAMLP_mapping pfx
      in (sd, super_load self sd pfx))"

definition LLaMAMoE_load_from_state_dict ::
  "('s \<Rightarrow> 'a state_dict \<Rightarrow> string \<Rightarrow> 's) \<Rightarrow> 's \<Rightarrow> 'a state_dict \<Rightarrow> string
     \<Rightarrow> 'a state_dict \<times> 's" where
  "LLaMAMoE_load_from_state_dict super_load self state_dict pfx =
     (let sd = map_old_state_dict_weights state_dict LLaMAMoE_mapping pfx
      in (sd, super_load self sd pfx))"

text \<open>\<open>self.config\<close> of a module.\<close>

definition get_config :: "'a module \<Rightarrow> error + Config" where
  "get_config m =
     (case map_of (attrs m) ''config'' of Some (ConfigV c) \<Rightarrow> Inr c | _ \<Rightarrow> Inl AttributeError)"

text \<open>
  The older layout of the gate: when the stored \<open>gating_factor\<close> has \<open>n_head\<close> at
  dimension 1, it is permuted.
\<close>

definition convert_gating_factor ::
  "'a module \<Rightarrow> 'a state_dict \<Rightarrow> string \<Rightarrow> error + 'a state_dict" where
  "convert_gating_factor self sd pfx =
     (let key = pfx @ ''gating_factor''
      in case sd key of
           None \<Rightarrow> Inr sd
         | Some t \<Rightarrow>
             bind_err (size_dim t 1) (\<lambda>n.
             bind_err (get_config self) (\<lambda>cfg.
               if n = n_head cfg
               then bind_err (permute_0213 t) (\<lambda>t'. Inr (sd(key \<mapsto> t')))
               else Inr sd)))"

text \<open>
  The legacy fused projection: one step of the loop over \<open>("weight", "bias")\<close>.
  \<open>qkv_reassemble\<close> comes from the checkpoint conversion script and is a parameter.
\<close>

definition convert_legacy ::
  "('a tensor \<Rightarrow> Config \<Rightarrow> error + 'a tensor) \<Rightarrow> 'a module \<Rightarrow> string \<Rightarrow> string
     \<Rightarrow> 'a state_dict \<Rightarrow> error + 'a state_dict" where
  "convert_legacy qkv_reassemble self pfx attr sd =
     (let legacy_key = pfx @ ''attn.linear.'' @ attr;
          current_key = pfx @ ''qkv.linear.'' @ attr
      in case sd legacy_key of
           None \<Rightarrow> Inr sd
         | Some t \<Rightarrow>
             bind_err (get_config self) (\<lambda>cfg.
             bind_err (qkv_reassemble t cfg) (\<lambda>t'.
               Inr ((sd(legacy_key := None))(current_key \<mapsto> t')))))"

definition CausalSelfAttention_load_from_state_dict ::
  "('a tensor \<Rightarrow> Config \<Rightarrow> error + 'a tensor)
     \<Rightarrow> ('a module \<Rightarrow> 'a state_dict \<Rightarrow> string \<Rightarrow> 'a module)
     \<Rightarrow> 'a module \<Rightarrow> 'a state_dict \<Rightarrow> string \<Rightarrow> error + 'a state_dict \<times> 'a module" where
  "CausalSelfAttention_load_from_state_dict qkv_reassemble super_load self state_dict pfx =
     bind_err (convert_gating_factor self
                 (map_old_state_dict_weights state_dict CausalSelfAttention_mapping pfx) pfx)
       (\<lambda>sd1.
     bind_err (convert_legacy qkv_reassemble self pfx ''weight'' sd1) (\<lambda>sd2.
     bind_err (convert_legacy qkv_reassemble self pfx ''bias'' sd2) (\<lambda>sd3.
       Inr (sd3, super_load self sd3 pfx))))"

section \<open>The forward pass of the model\<close>

subsection \<open>Tensor operations of the framework\<close>

text \<open>
  \<open>t.index_select(d, index)\<close> for a one-dimensional \<open>index\<close>: the slices of \<open>t\<close> along
  dimension \<open>d\<close> at the given positions; a position outside the dimension is an error.
\<close>

definition index_select :: "nat \<Rightarrow> 'a tensor \<Rightarrow> int tensor \<Rightarrow> error + 'a tensor" where
  "index_select d t index =
     (if d \<ge> length (shape t) \<or> length (shape index) \<noteq> 1 then Inl IndexError
      else
        let n = shape t ! d;
            outer = numel (take d (shape t));
            inner = numel (drop (Suc d) (shape t))
        in if list_ex (\<lambda>i. i < 0 \<or> int n \<le> i) (elems index) then Inl IndexError
           else Inr (Tensor ((shape t)[d := length (elems index)])
                  (concat (map (\<lambda>o'. concat (map (\<lambda>i.
                       take inner (drop ((o' * n + nat i) * inner) (elems t)))
                     (elems index))) [0..<outer]))))"

text \<open>\<open>t.narrow(d, start, len)\<close>, the slice of \<open>len\<close> positions of dimension \<open>d\<close>.\<close>

definition narrow :: "nat \<Rightarrow> nat \<Rightarrow> nat \<Rightarrow> 'a tensor \<Rightarrow> 'a tensor" where
  "narrow d start len t =
     (let n = shape t ! d;
          outer = numel (take d (shape t));
          inner = numel (drop (Suc d) (shape t))
      in Tensor ((shape t)[d := len])
           (concat (map (\<lambda>o'. take (len * inner) (drop ((o' * n + start) * inner) (elems t)))
              [0..<outer])))"

text \<open>\<open>t[:n]\<close>\<close>

definition slice_to :: "nat \<Rightarrow> 'a tensor \<Rightarrow> error + 'a tensor" where
  "slice_to n t =
     (if shape t = [] then Inl IndexError else Inr (narrow 0 0 (min n (shape t ! 0)) t))"

text \<open>
  \<open>t.split(k, dim=d)\<close> for \<open>k > 0\<close>: consecutive slices of \<open>k\<close> positions, the last one
  shorter when \<open>k\<close> does not divide the size; a single empty slice when the size is 0.
\<close>

definition split_tensor :: "nat \<Rightarrow> nat \<Rightarrow> 'a tensor \<Rightarrow> error + 'a tensor list" where
  "split_tensor k d t =
     (if d \<ge> length (shape t) then Inl IndexError
      else
        let n = shape t ! d
        in Inr (map (\<lambda>c. narrow d (c * k) (min k (n - c * k)) t)
                  [0..<max 1 ((n + k - 1) div k)]))"

text \<open>
  \<open>torch.cat(ts, dim=d)\<close> of tensors that agree on every other dimension.
\<close>

definition cat :: "nat \<Rightarrow> 'a tensor list \<Rightarrow> error + 'a tensor" where
  "cat d ts =
     (case ts of
        [] \<Rightarrow> Inl RuntimeError
      | t0 # _ \<Rightarrow>
          if d \<ge> length (shape t0)
             \<or> list_ex (\<lambda>t. length (shape t) \<noteq> length (shape t0)
                            \<or> (shape t)[d := 0] \<noteq> (shape t0)[d := 0]) ts
          then Inl RuntimeError
          else
            let outer = numel (take d (shape t0));
                inner = numel (drop (Suc d) (shape t0))
            in Inr (Tensor ((shape t0)[d := sum_list (map (\<lambda>t. shape t ! d) ts)])
                 (concat (map (\<lambda>o'. concat (map (\<lambda>t.
                      take (shape t ! d * inner) (drop (o' * (shape t ! d) * inner) (elems t)))
                    ts)) [0..<outer]))))"

text \<open>The forward pass of \<open>torch.nn.Embedding\<close>: the rows of the weight at the indices.\<close>

definition Embedding_forward :: "'a module \<Rightarrow> int tensor \<Rightarrow> error + 'a tensor" where
  "Embedding_forward m idx =
     bind_err (get_param m ''weight'') (\<lambda>w.
       case shape (pdata w) of
         [nrows, ncols] \<Rightarrow>
           if list_ex (\<lambda>i. i < 0 \<or> int nrows \<le> i) (elems idx) then Inl IndexError
           else Inr (Tensor (shape idx @ [ncols])
                  (concat (map (\<lambda>i. row ncols (elems (pdata w)) (nat i)) (elems idx))))
       | _ \<Rightarrow> Inl RuntimeError)"

definition map_tensor :: "('a \<Rightarrow> 'b) \<Rightarrow> 'a tensor \<Rightarrow> 'b tensor" where
  "map_tensor f t = Tensor (shape t) (map f (elems t))"

subsection \<open>The inherited parts\<close>

text \<open>
  The forward passes of the block and of the norm layers are inherited from the base
  model and are parameters. A block may update its own state (its key/value cache), so
  its forward pass returns the block as well.
\<close>

record 'a base =
  block_forward ::
    "'a module \<Rightarrow> 'a tensor \<Rightarrow> 'a tensor \<Rightarrow> 'a tensor \<Rightarrow> 'a tensor option \<Rightarrow> int tensor option
       \<Rightarrow> (error + 'a tensor) \<times> 'a module"
  norm_forward :: "'a module \<Rightarrow> 'a tensor \<Rightarrow> error + 'a tensor"

text \<open>\<open>for block in self.transformer.h: x = block(x, cos, sin, mask, input_pos)\<close>\<close>

fun run_blocks ::
  "'a base \<Rightarrow> (string \<times> 'a module) list \<Rightarrow> 'a tensor \<Rightarrow> 'a tensor \<Rightarrow> 'a tensor
     \<Rightarrow> 'a tensor option \<Rightarrow> int tensor option
     \<Rightarrow> (error + 'a tensor) \<times> (string \<times> 'a module) list" where
  "run_blocks B [] x cs sn msk input_pos = (Inr x, [])"
| "run_blocks B (nb # bs) x cs sn msk input_pos =
     (case block_forward B (snd nb) x cs sn msk input_pos of
        (Inl e, b') \<Rightarrow> (Inl e, (fst nb, b') # bs)
      | (Inr x', b') \<Rightarrow>
          (case run_blocks B bs x' cs sn msk input_pos of
             (r, bs') \<Rightarrow> (r, (fst nb, b') # bs')))"

definition set_child :: "'a module \<Rightarrow> string \<Rightarrow> 'a module \<Rightarrow> 'a module" where
  "set_child m n c =
     Module (cls m) (params m)
       (map (\<lambda>nm. if fst nm = n then (fst nm, c) else nm) (children m)) (attrs m)"

subsection \<open>\<open>GPT.forward\<close>\<close>

datatype 'a forward_output = Logits "'a tensor" | Chunks "'a tensor list"

text \<open>
  The first part of \<open>forward\<close>: the check of the sequence length and the selection of
  \<open>cos\<close>, \<open>sin\<close> and \<open>mask\<close>.
\<close>

definition rope_and_mask ::
  "'a GPT \<Rightarrow> int tensor \<Rightarrow> int tensor option
     \<Rightarrow> error + 'a tensor \<times> 'a tensor \<times> 'a tensor option" where
  "rope_and_mask self idx input_pos =
     bind_err (size_dim idx 1) (\<lambda>T.
       if max_seq_length self < int T then Inl ValueError
       else
         (case input_pos of
            Some pos \<Rightarrow>
              bind_err (index_select 0 (cos_buf self) pos) (\<lambda>cs.
              bind_err (index_select 0 (sin_buf self) pos) (\<lambda>sn.
                case mask_cache self of
                  None \<Rightarrow> Inl TypeError
                | Some mc \<Rightarrow>
                    bind_err (index_select 2 mc pos) (\<lambda>msk. Inr (cs, sn, Some msk))))
          | None \<Rightarrow>
              bind_err (slice_to T (cos_buf self)) (\<lambda>cs.
              bind_err (slice_to T (sin_buf self)) (\<lambda>sn. Inr (cs, sn, None)))))"

definition softcap :: "real \<Rightarrow> real tensor \<Rightarrow> real tensor" where
  "softcap c x = map_tensor (\<lambda>v. tanh (v / c) * c) x"

text \<open>The part of \<open>forward\<close> after the final norm: the head, chunked or not.\<close>

definition lm_head_logits :: "real GPT \<Rightarrow> real tensor \<Rightarrow> int \<Rightarrow> error + real forward_output" where
  "lm_head_logits self x lm_head_chunk_size =
     (if lm_head_chunk_size > 0 then
        bind_err (split_tensor (nat lm_head_chunk_size) 1 x) (\<lambda>xs.
        bind_err (sequence_err (map (AdapterV2Linear_forward (lm_head self)) xs)) (\<lambda>ys.
          Inr (Chunks ys)))
      else
        bind_err (AdapterV2Linear_forward (lm_head self) x) (\<lambda>y.
          case final_logit_softcapping (config self) of
            None \<Rightarrow> Inr (Logits y)
          | Some c \<Rightarrow> Inr (Logits (softcap c y))))"

definition GPT_forward ::
  "real base \<Rightarrow> real GPT \<Rightarrow> int tensor \<Rightarrow> int tensor option \<Rightarrow> int
     \<Rightarrow> (error + real forward_output) \<times> real GPT" where
  "GPT_forward B self idx input_pos lm_head_chunk_size =
     (case rope_and_mask self idx input_pos of
        Inl e \<Rightarrow> (Inl e, self)
      | Inr (cs, sn, msk) \<Rightarrow>
          (case bind_err (get_child (transformer self) ''wte'') (\<lambda>wte.
                  Embedding_forward wte idx) of
             Inl e \<Rightarrow> (Inl e, self)
           | Inr x0 \<Rightarrow>
               let x1 = (if scale_embeddings (config self)
                         then map_tensor (\<lambda>v. v * (real (n_embd (config self)) powr (1 / 2))) x0
                         else x0)
               in (case get_child (transformer self) ''h'' of
                     Inl e \<Rightarrow> (Inl e, self)
                   | Inr h \<Rightarrow>
                       (case run_blocks B (children h) x1 cs sn msk input_pos of
                          (r, blocks') \<Rightarrow>
                            let self' = self\<lparr>transformer :=
                                  set_child (transformer self) ''h''
                                    (Module (cls h) (params h) blocks' (attrs h))\<rparr>
                            in (case bind_err r (\<lambda>x2.
                                      bind_err (get_child (transformer self) ''ln_f'') (\<lambda>ln_f.
                                      bind_err (norm_forward B ln_f x2) (\<lambda>x3.
                                        lm_head_logits self x3 lm_head_chunk_size))) of
                                  Inl e \<Rightarrow> (Inl e, self')
                                | Inr out \<Rightarrow> (Inr out, self'))))))"

text \<open>
  The shape invariant of an \<open>AdapterV2Linear\<close> instance: the two adapter parameters are
  vectors of the length of the wrapped projection's output.
\<close>

definition wf_AdapterV2Linear :: "'a module \<Rightarrow> bool" where
  "wf_AdapterV2Linear self =
     (case (map_of (params self) ''adapter_bias'', map_of (params self) ''adapter_scale'',
            map_of (children self) ''linear'') of
        (Some b, Some s, Some lin) \<Rightarrow>
          (case map_of (params lin) ''weight'' of
             Some w \<Rightarrow>
               (case shape (pdata w) of
                  [nout, nin] \<Rightarrow> shape (pdata b) = [nout] \<and> shape (pdata s) = [nout]
                | _ \<Rightarrow> False)
           | None \<Rightarrow> False)
      | _ \<Rightarrow> False)"

text \<open>A layer with a non-trivial scale and bias, used to evaluate the model.\<close>

definition ex_layer :: "int module" where
  "ex_layer =
     set_param
       (set_param (AdapterV2Linear int 2 2 True) ''adapter_scale''
          (Parameter (Tensor [2] [2, 3]) False))
       ''adapter_bias'' (Parameter (Tensor [2] [10, 20]) False)"

text \<open>A small configuration of three blocks, the last of which carries the adapter prefix.\<close>

definition ex_config :: Config where
  "ex_config =
     \<lparr>n_embd = 2, padded_vocab_size = Some 3, lm_head_bias = False, n_layer = 3,
      norm_class = RMSNorm_class, norm_eps = 0, block_size = 4, scale_embeddings = False,
      final_logit_softcapping = None, parallel_residual = False,
      shared_attention_norm = False, post_attention_norm = False, post_mlp_norm = False,
      mlp_class_name = LLaMAMLP_name, n_head = 2, n_query_groups = 2, head_size = 1,
      bias = False, attn_bias = False, adapter_start_layer = 2, adapter_prompt_length = 2,
      sliding_window_size = None, sliding_window_layer_stride = 1, intermediate_size = 3,
      n_expert = 0\<rparr>"

definition ex_rope_cache :: "Config \<Rightarrow> int \<Rightarrow> 'a::semiring_1 tensor \<times> 'a tensor" where
  "ex_rope_cache cfg n = (ones [nat n, 1], zeros [nat n, 1])"

text \<open>
  Instances for evaluating the loaders: the attention module of block 2 of the small
  configuration, a checkpoint in the older naming and layout, and trivial stand-ins for
  \<open>qkv_reassemble\<close> and the inherited loader.
\<close>

definition ex_attn :: "int module" where
  "ex_attn = (case CausalSelfAttention int ex_config 2 of Inr m \<Rightarrow> m | Inl e \<Rightarrow> Identity)"

definition ex_state_dict :: "int state_dict" where
  "ex_state_dict =
     [''h.2.attn.gating_factor'' \<mapsto> Tensor [1, 2, 1, 1] [5, 7],
      ''h.2.attn.qkv.weight'' \<mapsto> Tensor [1, 1] [3],
      ''h.2.attn.qkv.bias'' \<mapsto> Tensor [1] [8],
      ''h.2.attn.proj.weight'' \<mapsto> Tensor [1, 1] [9],
      ''h.2.attn.proj.bias'' \<mapsto> Tensor [1] [10],
      ''h.2.attn.attn.linear.bias'' \<mapsto> Tensor [1] [4]]"

text \<open>Checkpoints in the old naming for the model and for the three MLP classes.\<close>

definition ex_gpt_checkpoint :: "int state_dict" where
  "ex_gpt_checkpoint =
     [''lm_head.weight'' \<mapsto> Tensor [1] [1], ''lm_head.bias'' \<mapsto> Tensor [1] [2]]"

definition ex_neox_checkpoint :: "int state_dict" where
  "ex_neox_checkpoint =
     [''h.0.mlp.fc.weight'' \<mapsto> Tensor [1] [1], ''h.0.mlp.fc.bias'' \<mapsto> Tensor [1] [2],
      ''h.0.mlp.proj.weight'' \<mapsto> Tensor [1] [3], ''h.0.mlp.proj.bias'' \<mapsto> Tensor [1] [4]]"

definition ex_llama_checkpoint :: "int state_dict" where
  "ex_llama_checkpoint =
     [''h.0.mlp.fc_1.weight'' \<mapsto> Tensor [1] [1], ''h.0.mlp.fc_1.bias'' \<mapsto> Tensor [1] [2],
      ''h.0.mlp.fc_2.weight'' \<mapsto> Tensor [1] [3], ''h.0.mlp.fc_2.bias'' \<mapsto> Tensor [1] [4],
      ''h.0.mlp.proj.weight'' \<mapsto> Tensor [1] [5], ''h.0.mlp.proj.bias'' \<mapsto> Tensor [1] [6]]"

definition ex_moe_checkpoint :: "int state_dict" where
  "ex_moe_checkpoint = [''h.0.mlp.gate.weight'' \<mapsto> Tensor [1] [1]]"

definition ex_qkv_reassemble :: "int tensor \<Rightarrow> Config \<Rightarrow> error + int tensor" where
  "ex_qkv_reassemble t cfg = Inr t"

definition ex_super_load :: "int module \<Rightarrow> int state_dict \<Rightarrow> string \<Rightarrow> int module" where
  "ex_super_load self sd pfx = self"

text \<open>
  A model without blocks and with logit soft-capping, an input of two tokens, and
  stand-ins for the inherited forward passes (the norm returns its input).
\<close>

definition ex_init :: "nat \<Rightarrow> real" where
  "ex_init i = 1"

definition ex_cap_config :: Config where
  "ex_cap_config =
     ex_config\<lparr>n_embd := 1, padded_vocab_size := Some 1, n_layer := 0,
               final_logit_softcapping := Some 1\<rparr>"

definition ex_cap_model :: "real GPT" where
  "ex_cap_model = projr (GPT ex_rope_cache ex_init ex_cap_config)"

definition ex_block_forward ::
  "real module \<Rightarrow> real tensor \<Rightarrow> real tensor \<Rightarrow> real tensor \<Rightarrow> real tensor option
     \<Rightarrow> int tensor option \<Rightarrow> (error + real tensor) \<times> real module" where
  "ex_block_forward b x cs sn msk input_pos = (Inr x, b)"

definition ex_norm_forward :: "real module \<Rightarrow> real tensor \<Rightarrow> error + real tensor" where
  "ex_norm_forward m x = Inr x"

definition ex_base :: "real base" where
  "ex_base = \<lparr>block_forward = ex_block_forward, norm_forward = ex_norm_forward\<rparr>"

definition ex_idx :: "int tensor" where
  "ex_idx = Tensor [1, 2] [0, 0]"



section \<open>Properties\<close>

lemma wf_init: "wf_AdapterV2Linear (AdapterV2Linear g nin nout use_bias)"
  by (simp add: wf_AdapterV2Linear_def AdapterV2Linear_def Linear_def Parameter_def zeros_def ones_def randn_def)

lemma Linear_forward_shape:
  assumes "Linear_forward lin x = Inr y" "map_of (params lin) ''weight'' = Some w"
    "shape (pdata w) = [nout, nin]"
  shows "shape y = butlast (shape x) @ [nout] \<and> length (elems y) = numel (shape y)"
  using assms
  by (auto simp: Linear_forward_def bind_err_def get_param_def Let_def numel_def length_concat
      comp_def sum_list_triv split: if_splits)

lemma broadcast_same:
  assumes "shape v = [n]" "shape t = lead @ [n]"
  shows "broadcast_last f t v =
     Inr (Tensor (shape t) (map (\<lambda>i. f (elems t ! i) (elems v ! (i mod n))) [0..<numel (shape t)]))"
  using assms by (simp add: broadcast_last_def)

lemma forward_formula:
  assumes "wf_AdapterV2Linear self"
    and "get_child self ''linear'' = Inr lin"
    and "get_param self ''adapter_scale'' = Inr sc"
    and "get_param self ''adapter_bias'' = Inr b"
    and "Linear_forward lin x = Inr y"
  shows "AdapterV2Linear_forward self x =
     Inr (Tensor (shape y)
       (map (\<lambda>i. elems (pdata sc) ! (i mod last (shape y))
                  * (elems y ! i + elems (pdata b) ! (i mod last (shape y))))
          [0..<length (elems y)]))"
proof -
  from assms(1-4) obtain w nout nin where
    w: "map_of (params lin) ''weight'' = Some w" "shape (pdata w) = [nout, nin]"
    and sb: "shape (pdata b) = [nout]" "shape (pdata sc) = [nout]"
    by (auto simp: wf_AdapterV2Linear_def get_child_def get_param_def
        split: option.splits list.splits)
  from Linear_forward_shape[OF assms(5) w]
  have y: "shape y = butlast (shape x) @ [nout]" "length (elems y) = numel (shape y)" by auto
  have 1: "broadcast_last (+) y (pdata b) =
     Inr (Tensor (shape y) (map (\<lambda>i. elems y ! i + elems (pdata b) ! (i mod nout)) [0..<numel (shape y)]))"
    by (rule broadcast_same[OF sb(1) y(1)])
  show ?thesis
    unfolding AdapterV2Linear_forward_def
    by (simp add: assms bind_err_def 1 broadcast_same[OF sb(2), where lead="butlast (shape x)"] y)
qed


text \<open>
  Claim C1. For every input tensor \<open>x\<close> on which the wrapped projection succeeds with
  output \<open>y\<close>, \<open>AdapterV2Linear.forward\<close> returns the tensor of the shape of \<open>y\<close> whose
  element \<open>i\<close> is \<open>adapter_scale[j] * (y[i] + adapter_bias[j])\<close>, where \<open>j\<close> is the
  output feature of \<open>i\<close>: the bias is added to the output of the projection first, the
  scale is applied to the sum.
\<close>

theorem C1_forward_scale_bias:
  assumes "wf_AdapterV2Linear self"
    and "get_child self ''linear'' = Inr lin"
    and "get_param self ''adapter_scale'' = Inr sc"
    and "get_param self ''adapter_bias'' = Inr b"
    and "Linear_forward lin x = Inr y"
  shows "AdapterV2Linear_forward self x =
     Inr (Tensor (shape y)
       (map (\<lambda>i. elems (pdata sc) ! (i mod last (shape y))
                  * (elems y ! i + elems (pdata b) ! (i mod last (shape y))))
          [0..<length (elems y)]))"
  using assms by (rule forward_formula)

lemmas ex_defs = ex_layer_def set_param_def AdapterV2Linear_def Linear_def Parameter_def zeros_def ones_def randn_def numel_def wf_AdapterV2Linear_def get_child_def get_param_def Linear_forward_def bind_err_def dot_def row_def

theorem C1_forward_scale_bias_witness:
  "wf_AdapterV2Linear ex_layer \<and>
   get_child ex_layer ''linear'' = Inr (Linear int 2 2 True) \<and>
   get_param ex_layer ''adapter_scale'' = Inr (Parameter (Tensor [2] [2, 3]) False) \<and>
   get_param ex_layer ''adapter_bias'' = Inr (Parameter (Tensor [2] [10, 20]) False) \<and>
   Linear_forward (Linear int 2 2 True) (Tensor [1, 2] [1, 1]) = Inr (Tensor [1, 2] [1, 6]) \<and>
   AdapterV2Linear_forward ex_layer (Tensor [1, 2] [1, 1]) = Inr (Tensor [1, 2] [22, 78])"
proof -
  have h1: "wf_AdapterV2Linear ex_layer" by (simp add: ex_defs)
  have h2: "get_child ex_layer ''linear'' = Inr (Linear int 2 2 True)" by (simp add: ex_defs)
  have h3: "get_param ex_layer ''adapter_scale'' = Inr (Parameter (Tensor [2] [2, 3]) False)"
    by (simp add: ex_defs)
  have h4: "get_param ex_layer ''adapter_bias'' = Inr (Parameter (Tensor [2] [10, 20]) False)"
    by (simp add: ex_defs)
  have h5: "Linear_forward (Linear int 2 2 True) (Tensor [1, 2] [1, 1]) = Inr (Tensor [1, 2] [1, 6])"
    by (simp add: ex_defs upt_rec)
  have "AdapterV2Linear_forward ex_layer (Tensor [1, 2] [1, 1]) = Inr (Tensor [1, 2] [22, 78])"
    using C1_forward_scale_bias[OF h1 h2 h3 h4 h5] by (simp add: Parameter_def upt_rec)
  with h1 h2 h3 h4 h5 show ?thesis by blast
qed


lemma map_of_set_param:
  "map_of (params (set_param m n p)) k =
     (if k = n then (if map_of (params m) n = None then None else Some p)
      else map_of (params m) k)"
proof -
  have "map_of (map (\<lambda>(k, q). if k = n then (k, p) else (k, q)) ps) k =
     (if k = n then (if map_of ps n = None then None else Some p) else map_of ps k)" for ps
    by (induction ps) auto
  then show ?thesis by (simp add: set_param_def)
qed

lemma children_set_param: "children (set_param m n p) = children m"
  by (simp add: set_param_def)

lemma forward_identity:
  assumes wf: "wf_AdapterV2Linear self"
    and lin: "get_child self ''linear'' = Inr lin"
    and sc: "get_param self ''adapter_scale'' = Inr sc" "pdata sc = ones (shape (pdata sc))"
    and b: "get_param self ''adapter_bias'' = Inr b" "pdata b = zeros (shape (pdata b))"
  shows "AdapterV2Linear_forward self x = Linear_forward lin x"
proof (cases "Linear_forward lin x")
  case (Inl e)
  then show ?thesis
    by (simp add: AdapterV2Linear_forward_def bind_err_def lin sc(1))
next
  case (Inr y)
  from wf lin sc(1) b(1) obtain w nout nin where
    w: "map_of (params lin) ''weight'' = Some w" "shape (pdata w) = [nout, nin]"
    and sb: "shape (pdata b) = [nout]" "shape (pdata sc) = [nout]"
    by (auto simp: wf_AdapterV2Linear_def get_child_def get_param_def
        split: option.splits list.splits)
  from Linear_forward_shape[OF Inr w]
  have y: "shape y = butlast (shape x) @ [nout]" "length (elems y) = numel (shape y)" by auto
  have eb: "elems (pdata b) = replicate nout 0" and es: "elems (pdata sc) = replicate nout 1"
    using sc(2) b(2) sb by (simp_all add: zeros_def ones_def numel_def)
  have len: "length (elems y) = numel (butlast (shape x)) * nout"
    using y by (simp add: numel_def)
  have pos: "i mod nout < nout" if "i < length (elems y)" for i
    using that len by (cases "nout = 0") auto
  have "map (\<lambda>i. elems (pdata sc) ! (i mod nout) * (elems y ! i + elems (pdata b) ! (i mod nout)))
          [0..<length (elems y)] = map (\<lambda>i. elems y ! i) [0..<length (elems y)]"
    by (rule map_cong) (simp_all add: eb es pos)
  also have "\<dots> = elems y" by (rule map_nth)
  finally have m: "map (\<lambda>i. elems (pdata sc) ! (i mod nout) * (elems y ! i + elems (pdata b) ! (i mod nout)))
          [0..<length (elems y)] = elems y" .
  have "AdapterV2Linear_forward self x = Inr (Tensor (shape y) (elems y))"
    using forward_formula[OF wf lin sc(1) b(1) Inr] m y(1) by simp
  then show ?thesis using Inr by simp
qed


lemma set_param_same:
  assumes "\<forall>(k, q) \<in> set (params m). k = n \<longrightarrow> q = p"
  shows "set_param m n p = m"
proof -
  have "map (\<lambda>(k, q). if k = n then (k, p) else (k, q)) (params m) = map (\<lambda>x. x) (params m)"
    by (rule map_cong) (use assms in auto)
  then show ?thesis by (simp add: set_param_def)
qed

lemma params_set_param_eq:
  "(k, q) \<in> set (params (set_param m n p)) \<Longrightarrow> k = n \<Longrightarrow> q = p"
  by (auto simp: set_param_def split: if_splits)

lemma params_set_param_neq:
  "(k, q) \<in> set (params (set_param m n p)) \<Longrightarrow> k \<noteq> n \<Longrightarrow> (k, q) \<in> set (params m)"
  by (auto simp: set_param_def split: if_splits)

lemma reset_parameters_ok:
  assumes wf: "wf_AdapterV2Linear self"
  shows "\<exists>self'. reset_parameters self = Inr self' \<and> wf_AdapterV2Linear self'
           \<and> get_child self' ''linear'' = get_child self ''linear''
           \<and> (\<forall>lin. get_child self ''linear'' = Inr lin \<longrightarrow>
                  AdapterV2Linear_forward self' x = Linear_forward lin x)
           \<and> reset_parameters self' = Inr self'"
proof -
  from wf obtain b s lin w nout nin where
    b: "map_of (params self) ''adapter_bias'' = Some b" "shape (pdata b) = [nout]"
    and s: "map_of (params self) ''adapter_scale'' = Some s" "shape (pdata s) = [nout]"
    and lin: "map_of (children self) ''linear'' = Some lin"
    and w: "map_of (params lin) ''weight'' = Some w" "shape (pdata w) = [nout, nin]"
    by (auto simp: wf_AdapterV2Linear_def split: option.splits list.splits)
  define self' where
    "self' = set_param (set_param self ''adapter_bias'' (init_zeros b)) ''adapter_scale'' (init_ones s)"
  have r: "reset_parameters self = Inr self'"
    by (simp add: reset_parameters_def get_param_def b s bind_err_def Let_def
        map_of_set_param self'_def)
  have pb: "map_of (params self') ''adapter_bias'' = Some (init_zeros b)"
    and ps: "map_of (params self') ''adapter_scale'' = Some (init_ones s)"
    and ch: "children self' = children self"
    by (simp_all add: self'_def map_of_set_param b s children_set_param)
  have shp: "shape (pdata (init_zeros b)) = [nout]" "shape (pdata (init_ones s)) = [nout]"
    by (simp_all add: init_zeros_def init_ones_def zeros_def ones_def b s)
  have wf': "wf_AdapterV2Linear self'"
    by (simp add: wf_AdapterV2Linear_def pb ps ch lin w shp)
  have gc: "get_child self' ''linear'' = get_child self ''linear''"
    by (simp add: get_child_def ch)
  have fixb: "init_zeros (init_zeros b) = init_zeros b" and fixs: "init_ones (init_ones s) = init_ones s"
    by (simp_all add: init_zeros_def init_ones_def zeros_def ones_def)
  have idem: "reset_parameters self' = Inr self'"
  proof -
    have ne: "''adapter_bias'' \<noteq> ''adapter_scale''" by simp
    have "q = init_zeros b" if "(''adapter_bias'', q) \<in> set (params self')" for q
    proof -
      from that have "(''adapter_bias'', q) \<in> set (params (set_param self ''adapter_bias'' (init_zeros b)))"
        unfolding self'_def by (rule params_set_param_neq) (rule ne)
      then show ?thesis by (rule params_set_param_eq) simp
    qed
    then have 1: "set_param self' ''adapter_bias'' (init_zeros b) = self'"
      by (intro set_param_same) blast
    have "q = init_ones s" if "(''adapter_scale'', q) \<in> set (params self')" for q
      using that unfolding self'_def by (rule params_set_param_eq) simp
    then have 2: "set_param self' ''adapter_scale'' (init_ones s) = self'"
      by (intro set_param_same) blast
    show ?thesis
      by (simp add: reset_parameters_def get_param_def pb ps bind_err_def Let_def fixb fixs 1 2)
  qed
  have fw: "AdapterV2Linear_forward self' x = Linear_forward lin x"
    by (rule forward_identity[OF wf', where sc="init_ones s" and b="init_zeros b"])
       (simp_all add: get_child_def get_param_def ch lin pb ps init_zeros_def init_ones_def zeros_def ones_def)
  show ?thesis using r wf' gc fw idem lin by (auto simp: get_child_def)
qed

lemma sequence_err_Inr:
  "sequence_err rs = Inr vs \<Longrightarrow> length vs = length rs \<and> (\<forall>i < length rs. rs ! i = Inr (vs ! i))"
proof (induction rs arbitrary: vs)
  case Nil
  then show ?case by simp
next
  case (Cons r rs)
  then show ?case
    by (auto split: sum.splits simp: nth_Cons split: nat.splits)
qed

lemma attn_adapter:
  assumes "CausalSelfAttention g cfg i = Inr m"
  shows "(if i \<ge> adapter_start_layer cfg
          then get_child m ''adapter_wte''
                 = Inr (Embedding g (adapter_prompt_length cfg) (n_embd cfg))
             \<and> get_param m ''gating_factor''
                 = Inr (Parameter (zeros [1, 1, n_head cfg, 1]) True)
             \<and> map_of (attrs m) ''adapter_kv_cache'' = Some NoneV
          else \<not> hasattr m ''adapter_wte'' \<and> \<not> hasattr m ''gating_factor''
             \<and> \<not> hasattr m ''adapter_kv_cache'')"
  using assms
  by (auto simp: CausalSelfAttention_def Let_def get_child_def get_param_def hasattr_def
      split: if_splits)

lemma Block_attn:
  assumes "Block g cfg i = Inr b"
  shows "\<exists>attn. CausalSelfAttention g cfg i = Inr attn \<and> get_child b ''attn'' = Inr attn"
proof -
  from assms obtain attn where a: "CausalSelfAttention g cfg i = Inr attn"
    by (auto simp: Block_def bind_err_def split: if_splits sum.splits)
  with assms have "\<exists>rest. children b = (''norm_1'', norm_layer cfg (n_embd cfg) (norm_eps cfg))
      # (''attn'', attn) # rest"
    by (auto simp: Block_def bind_err_def split: if_splits)
  then have "get_child b ''attn'' = Inr attn"
    by (auto simp: get_child_def)
  with a show ?thesis by blast
qed

lemma GPT_block_attn:
  assumes "GPT rope g cfg = Inr model" "i < n_layer cfg"
  shows "\<exists>attn. block_attn model i = Inr attn \<and> CausalSelfAttention g cfg (int i) = Inr attn"
proof -
  from assms(1) obtain vocab blocks where
    b: "sequence_err (map (\<lambda>i. Block g cfg (int i)) [0..<n_layer cfg]) = Inr blocks"
    and t: "transformer model = ModuleDict
                   [(''wte'', Embedding g vocab (n_embd cfg)),
                    (''h'', ModuleList blocks),
                    (''ln_f'', norm_layer cfg (n_embd cfg) (norm_eps cfg))]"
    by (auto simp: GPT_def bind_err_def split: option.splits sum.splits)
  from sequence_err_Inr[OF b] assms(2)
  have len: "length blocks = n_layer cfg" and bi: "Block g cfg (int i) = Inr (blocks ! i)"
    by auto
  from Block_attn[OF bi] obtain attn where a: "CausalSelfAttention g cfg (int i) = Inr attn"
    and ga: "get_child (blocks ! i) ''attn'' = Inr attn"
    by blast
  have h: "get_child (transformer model) ''h'' = Inr (ModuleList blocks)"
    by (simp add: t ModuleDict_def get_child_def)
  have "block_attn model i = Inr attn"
    using len assms(2) ga by (simp add: block_attn_def h bind_err_def ModuleList_def)
  with a show ?thesis by blast
qed

text \<open>
  Claim C8. A constructed \<open>AdapterV2Linear\<close> is an identity wrapper: its forward pass
  returns what the wrapped projection returns, errors included. From any state that
  satisfies the layer's shape invariant, \<open>reset_parameters\<close> succeeds, leaves the wrapped
  projection as it is, makes the layer an identity wrapper again, and a second call changes
  nothing.
\<close>

theorem C8_identity_wrapper:
  "AdapterV2Linear_forward (AdapterV2Linear g nin nout use_bias) x
     = Linear_forward (Linear g nin nout use_bias) x
   \<and> (wf_AdapterV2Linear self \<longrightarrow>
        (\<exists>self'. reset_parameters self = Inr self'
           \<and> get_child self' ''linear'' = get_child self ''linear''
           \<and> (\<forall>lin. get_child self ''linear'' = Inr lin \<longrightarrow>
                  AdapterV2Linear_forward self' x = Linear_forward lin x)
           \<and> reset_parameters self' = Inr self'))"
proof
  show "AdapterV2Linear_forward (AdapterV2Linear g nin nout use_bias) x
          = Linear_forward (Linear g nin nout use_bias) x"
    by (rule forward_identity[OF wf_init,
          where sc = "Parameter (ones [nout]) False" and b = "Parameter (zeros [nout]) False"])
       (simp_all add: AdapterV2Linear_def get_child_def get_param_def Parameter_def
          zeros_def ones_def)
next
  show "wf_AdapterV2Linear self \<longrightarrow>
        (\<exists>self'. reset_parameters self = Inr self'
           \<and> get_child self' ''linear'' = get_child self ''linear''
           \<and> (\<forall>lin. get_child self ''linear'' = Inr lin \<longrightarrow>
                  AdapterV2Linear_forward self' x = Linear_forward lin x)
           \<and> reset_parameters self' = Inr self')"
    using reset_parameters_ok[of self x] by blast
qed

theorem C8_identity_wrapper_witness:
  "wf_AdapterV2Linear ex_layer
   \<and> (\<exists>self'. reset_parameters ex_layer = Inr self'
         \<and> AdapterV2Linear_forward self' (Tensor [1, 2] [1, 1]) = Inr (Tensor [1, 2] [1, 6])
         \<and> reset_parameters self' = Inr self')"
proof -
  have h1: "wf_AdapterV2Linear ex_layer" by (simp add: ex_defs)
  have h2: "get_child ex_layer ''linear'' = Inr (Linear int 2 2 True)" by (simp add: ex_defs)
  have h5: "Linear_forward (Linear int 2 2 True) (Tensor [1, 2] [1, 1]) = Inr (Tensor [1, 2] [1, 6])"
    by (simp add: ex_defs upt_rec)
  from C8_identity_wrapper[of int 2 2 True "Tensor [1, 2] [1, 1]" ex_layer] h1 h2 h5
  show ?thesis by auto
qed

text \<open>
  Claim C3. In a constructed model, the attention module of block \<open>i\<close> (for every
  \<open>i < n_layer\<close>) is the one constructed for index \<open>i\<close>; it has the \<open>adapter_wte\<close>
  embedding of \<open>adapter_prompt_length\<close> rows of size \<open>n_embd\<close>, the \<open>gating_factor\<close>
  parameter of zeros of shape \<open>(1, 1, n_head, 1)\<close> and the \<open>adapter_kv_cache\<close> slot set to
  \<open>None\<close> when \<open>i \<ge> adapter_start_layer\<close>, and none of the three attributes otherwise.
\<close>

theorem C3_adapter_prefix_layers:
  assumes "GPT rope g cfg = Inr model" and "i < n_layer cfg"
  shows "\<exists>attn. block_attn model i = Inr attn
     \<and> (if int i \<ge> adapter_start_layer cfg
        then get_child attn ''adapter_wte''
               = Inr (Embedding g (adapter_prompt_length cfg) (n_embd cfg))
           \<and> get_param attn ''gating_factor''
               = Inr (Parameter (zeros [1, 1, n_head cfg, 1]) True)
           \<and> map_of (attrs attn) ''adapter_kv_cache'' = Some NoneV
        else \<not> hasattr attn ''adapter_wte'' \<and> \<not> hasattr attn ''gating_factor''
           \<and> \<not> hasattr attn ''adapter_kv_cache'')"
proof -
  from GPT_block_attn[OF assms] obtain attn where
    a: "block_attn model i = Inr attn" "CausalSelfAttention g cfg (int i) = Inr attn"
    by blast
  from attn_adapter[OF a(2)] a(1) show ?thesis by blast
qed

lemma ex_GPT_ok: "\<exists>model. GPT ex_rope_cache int ex_config = Inr (model :: int GPT)"
  by (simp add: GPT_def ex_config_def Block_def CausalSelfAttention_def bind_err_def Let_def
      upt_rec)

theorem C3_adapter_prefix_layers_witness:
  "\<exists>model :: int GPT. GPT ex_rope_cache int ex_config = Inr model
     \<and> (1::nat) < n_layer ex_config \<and> (2::nat) < n_layer ex_config
     \<and> (\<exists>attn. block_attn model 1 = Inr attn \<and> \<not> hasattr attn ''adapter_wte''
           \<and> \<not> hasattr attn ''gating_factor'' \<and> \<not> hasattr attn ''adapter_kv_cache'')
     \<and> (\<exists>attn. block_attn model 2 = Inr attn
           \<and> get_child attn ''adapter_wte'' = Inr (Embedding int 2 2)
           \<and> get_param attn ''gating_factor'' = Inr (Parameter (zeros [1, 1, 2, 1]) True)
           \<and> map_of (attrs attn) ''adapter_kv_cache'' = Some NoneV)"
proof -
  from ex_GPT_ok obtain model :: "int GPT" where m: "GPT ex_rope_cache int ex_config = Inr model"
    by blast
  have h1: "(1::nat) < n_layer ex_config" and h2: "(2::nat) < n_layer ex_config"
    by (simp_all add: ex_config_def)
  from C3_adapter_prefix_layers[OF m h1] C3_adapter_prefix_layers[OF m h2] m h1 h2
  show ?thesis by (auto simp: ex_config_def)
qed

lemma named_parameters_mark_from:
  "named_parameters_from pfx (mark_from pfx m) = map set_rg (named_parameters_from pfx m)"
proof (induction m arbitrary: pfx)
  case (Module c ps cs ats)
  have "concat (map (\<lambda>nm. named_parameters_from (join_name pfx (fst nm)) (snd nm))
            (map (\<lambda>nm. (fst nm, mark_from (join_name pfx (fst nm)) (snd nm))) cs))
        = concat (map (\<lambda>nm. map set_rg (named_parameters_from (join_name pfx (fst nm)) (snd nm))) cs)"
    unfolding map_map comp_def
    by (rule arg_cong[where f=concat], rule map_cong) (auto intro: Module.IH simp: snds.simps)
  moreover have "map (\<lambda>np. (join_name pfx (fst np), snd np))
            (map (\<lambda>np. (fst np,
               (snd np)\<lparr>requires_grad := adapter_filter (join_name pfx (fst np)) (snd np)\<rparr>)) ps)
        = map set_rg (map (\<lambda>np. (join_name pfx (fst np), snd np)) ps)"
    by (simp add: set_rg_def adapter_filter_def)
  ultimately show ?case
    by (simp add: map_concat del: map_map) (simp add: comp_def)
qed

lemma adapter_filter_iff:
  "adapter_filter key v \<longleftrightarrow> (\<exists>s \<in> set adapter_substrings. sublist s key)"
  by (simp add: adapter_filter_def list_ex_iff)

lemma sublist_dot:
  assumes "c \<notin> set s"
  shows "sublist s (a @ c # b) \<longleftrightarrow> sublist s a \<or> sublist s b"
proof
  assume "sublist s (a @ c # b)"
  then consider "sublist s a" | "sublist s (c # b)"
    | s1 s2 where "s = s1 @ s2" "suffix s1 a" "prefix s2 (c # b)"
    by (auto simp: sublist_append)
  then show "sublist s a \<or> sublist s b"
  proof cases
    case 1 then show ?thesis by simp
  next
    case 2
    then have "prefix s (c # b) \<or> sublist s b" by (simp add: sublist_Cons_right)
    moreover have "s = []" if "prefix s (c # b)"
      using that assms by (cases s) auto
    ultimately show ?thesis by auto
  next
    case 3
    have "s2 = []" using 3(1,3) assms by (cases s2) auto
    with 3 show ?thesis by (auto intro: suffix_imp_sublist)
  qed
next
  assume "sublist s a \<or> sublist s b"
  then show "sublist s (a @ c # b)"
    by (auto simp: sublist_append sublist_Cons_right)
qed

lemma adapter_filter_join:
  "adapter_filter (join_name a b) v \<longleftrightarrow> adapter_filter a () \<or> adapter_filter b ()"
proof -
  have nd: "CHR ''.'' \<notin> set s" if "s \<in> set adapter_substrings" for s
    using that by (auto simp: adapter_substrings_def)
  have ne: "\<not> adapter_filter [] ()"
    by (simp add: adapter_filter_def adapter_substrings_def)
  show ?thesis
  proof (cases "a = []")
    case True
    then show ?thesis using ne by (simp add: join_name_def adapter_filter_def)
  next
    case False
    then show ?thesis
      by (auto simp: join_name_def adapter_filter_iff sublist_dot[OF nd])
  qed
qed

lemma linear_parameters_mark_from:
  "linear_parameters_from pfx (mark_from pfx m) = map set_rg (linear_parameters_from pfx m)"
proof (induction m arbitrary: pfx)
  case (Module c ps cs ats)
  have "concat (map (\<lambda>nm. linear_parameters_from (join_name pfx (fst nm)) (snd nm))
            (map (\<lambda>nm. (fst nm, mark_from (join_name pfx (fst nm)) (snd nm))) cs))
        = concat (map (\<lambda>nm. map set_rg (linear_parameters_from (join_name pfx (fst nm)) (snd nm))) cs)"
    unfolding map_map comp_def
    by (rule arg_cong[where f=concat], rule map_cong) (auto intro: Module.IH simp: snds.simps)
  moreover have "map (\<lambda>np. (join_name pfx (fst np), snd np))
            (map (\<lambda>np. (fst np,
               (snd np)\<lparr>requires_grad := adapter_filter (join_name pfx (fst np)) (snd np)\<rparr>)) ps)
        = map set_rg (map (\<lambda>np. (join_name pfx (fst np), snd np)) ps)"
    by (simp add: set_rg_def adapter_filter_def)
  ultimately show ?case
    by (simp add: map_concat del: map_map) (simp add: comp_def)
qed

lemma linear_subset_named:
  "set (linear_parameters_from pfx m) \<subseteq> set (named_parameters_from pfx m)"
proof (induction m arbitrary: pfx)
  case (Module c ps cs ats)
  have "set (linear_parameters_from (join_name pfx (fst nm)) (snd nm))
          \<subseteq> set (named_parameters_from (join_name pfx (fst nm)) (snd nm))"
    if "nm \<in> set cs" for nm
    using that by (intro Module.IH[of nm "snd nm"]) (auto simp: snds.simps)
  then show ?case by fastforce
qed

lemma adapter_filter_const: "adapter_filter key v = adapter_filter key w"
  by (simp add: adapter_filter_def)

lemma clean_Module:
  assumes "c \<noteq> C_Linear" "\<And>n ch. (n, ch) \<in> set cs \<Longrightarrow> clean (join_name pfx n) ch"
  shows "clean pfx (Module c ps cs ats)"
  using assms by (fastforce simp: clean_def)

lemma clean_Linear:
  assumes "\<not> adapter_filter pfx ()"
  shows "clean pfx (Linear g nin nout use_bias)"
proof -
  have "\<not> adapter_filter ''weight'' ()" "\<not> adapter_filter ''bias'' ()"
    by (simp_all add: adapter_filter_def adapter_substrings_def sublist_Cons_right)
  then show ?thesis using assms
    by (auto simp: clean_def Linear_def adapter_filter_join)
qed

lemma clean_no_linear [simp]:
  "clean pfx (Embedding g n d)" "clean pfx (norm_layer cfg n eps)" "clean pfx Identity"
  by (simp_all add: clean_def Embedding_def norm_layer_def LayerNorm_def RMSNorm_def Identity_def
      split: norm_class.splits)

lemma clean_AdapterV2Linear:
  assumes "\<not> adapter_filter pfx ()"
  shows "clean pfx (AdapterV2Linear g nin nout use_bias)"
proof -
  have l: "\<not> adapter_filter ''linear'' ()"
    by (simp add: adapter_filter_def adapter_substrings_def sublist_Cons_right)
  have "clean (join_name pfx ''linear'') (Linear g nin nout use_bias)"
    by (rule clean_Linear) (simp add: adapter_filter_join assms l)
  then show ?thesis
    unfolding AdapterV2Linear_def by (intro clean_Module) auto
qed

lemma not_filter_names:
  "\<not> adapter_filter ''qkv'' ()" "\<not> adapter_filter ''proj'' ()" "\<not> adapter_filter ''fc'' ()"
  "\<not> adapter_filter ''fc_1'' ()" "\<not> adapter_filter ''fc_2'' ()" "\<not> adapter_filter ''gate'' ()"
  "\<not> adapter_filter ''experts'' ()" "\<not> adapter_filter ''attn'' ()" "\<not> adapter_filter ''mlp'' ()"
  "\<not> adapter_filter ''h'' ()" "\<not> adapter_filter ''lm_head'' ()"
  "\<not> adapter_filter ''transformer'' ()"
  by (simp_all add: adapter_filter_def adapter_substrings_def sublist_Cons_right)

lemma set_str_nat: "set (str_nat n) \<subseteq> digit_char ` {0..<10}"
proof (induction n rule: str_nat.induct)
  case (1 n)
  show ?case
  proof (cases "n < 10")
    case True
    then show ?thesis by (subst str_nat.simps) auto
  next
    case False
    then have "set (str_nat (n div 10)) \<subseteq> digit_char ` {0..<10}" by (rule 1)
    moreover have "n mod 10 \<in> {0..<10}" by simp
    ultimately show ?thesis using False by (subst str_nat.simps) auto
  qed
qed

lemma not_filter_str_nat: "\<not> adapter_filter (str_nat n) ()"
proof
  assume "adapter_filter (str_nat n) ()"
  then obtain s where s: "s \<in> set adapter_substrings" "sublist s (str_nat n)"
    by (auto simp: adapter_filter_iff)
  from s(1) have "CHR ''_'' \<in> set s" by (auto simp: adapter_substrings_def)
  with set_mono_sublist[OF s(2)] set_str_nat[of n]
  obtain d where "d < 10" "CHR ''_'' = digit_char d" by auto
  then have "of_char (CHR ''_'') = (of_char (char_of (48 + d)) :: nat)"
    by (simp add: digit_char_def)
  with \<open>d < 10\<close> show False by simp
qed

lemma clean_ModuleList:
  assumes "\<not> adapter_filter pfx ()"
    and "\<And>q m. \<not> adapter_filter q () \<Longrightarrow> m \<in> set ms \<Longrightarrow> clean q m"
  shows "clean pfx (ModuleList ms)"
  unfolding ModuleList_def
  by (intro clean_Module) (auto simp: adapter_filter_join assms not_filter_str_nat)

lemma clean_CausalSelfAttention:
  assumes "CausalSelfAttention g cfg i = Inr m" "\<not> adapter_filter pfx ()"
  shows "clean pfx m"
proof -
  have q: "clean (join_name pfx ''qkv'') (AdapterV2Linear g a b c)"
    and p: "clean (join_name pfx ''proj'') (AdapterV2Linear g a b c)" for a b c
    by (rule clean_AdapterV2Linear, simp add: adapter_filter_join assms(2) not_filter_names)+
  from assms(1) show ?thesis
    by (auto simp: CausalSelfAttention_def Let_def split: if_splits intro!: clean_Module q p)
qed

lemma clean_LLaMAMLP_init:
  assumes "\<not> adapter_filter pfx ()" "c \<noteq> C_Linear"
  shows "clean pfx (LLaMAMLP_init c g cfg)"
proof -
  have "clean (join_name pfx n) (AdapterV2Linear g a b d)"
    if "n \<in> {''fc_1'', ''fc_2'', ''proj''}" for n a b d
    using that
    by (intro clean_AdapterV2Linear) (auto simp: adapter_filter_join assms(1) not_filter_names)
  then show ?thesis
    unfolding LLaMAMLP_init_def by (intro clean_Module assms(2)) auto
qed

lemma clean_mlp:
  assumes "\<not> adapter_filter pfx ()"
  shows "clean pfx (mlp_class cfg g cfg)"
proof (cases "mlp_class_name cfg")
  case GptNeoxMLP_name
  have "clean (join_name pfx n) (AdapterV2Linear g a b d)"
    if "n \<in> {''fc'', ''proj''}" for n a b d
    using that
    by (intro clean_AdapterV2Linear) (auto simp: adapter_filter_join assms not_filter_names)
  then show ?thesis
    unfolding mlp_class_def GptNeoxMLP_name GptNeoxMLP_def
    by (simp, intro clean_Module) auto
next
  case LLaMAMLP_name
  then show ?thesis
    by (simp add: mlp_class_def LLaMAMLP_def clean_LLaMAMLP_init assms)
next
  case GemmaMLP_name
  then show ?thesis
    by (simp add: mlp_class_def GemmaMLP_def clean_LLaMAMLP_init assms)
next
  case LLaMAMoE_name
  have g: "clean (join_name pfx ''gate'') (AdapterV2Linear g a b d)" for a b d
    by (intro clean_AdapterV2Linear) (auto simp: adapter_filter_join assms not_filter_names)
  have e: "clean (join_name pfx ''experts'')
             (ModuleList (map (\<lambda>_. LLaMAMLP g cfg) [0..<n_expert cfg]))"
    by (rule clean_ModuleList)
       (auto simp: adapter_filter_join assms not_filter_names LLaMAMLP_def
          intro: clean_LLaMAMLP_init)
  show ?thesis
    unfolding mlp_class_def LLaMAMoE_name LLaMAMoE_def
    by (simp, intro clean_Module) (auto simp: g e)
qed

lemma clean_Block:
  assumes "Block g cfg i = Inr b" "\<not> adapter_filter pfx ()"
  shows "clean pfx b"
proof -
  from assms(1) obtain attn where a: "CausalSelfAttention g cfg i = Inr attn"
    by (auto simp: Block_def bind_err_def split: if_splits sum.splits)
  have ca: "clean (join_name pfx ''attn'') attn"
    by (rule clean_CausalSelfAttention[OF a]) (simp add: adapter_filter_join assms(2) not_filter_names)
  have cm: "clean (join_name pfx ''mlp'') (mlp_class cfg g cfg)"
    by (rule clean_mlp) (simp add: adapter_filter_join assms(2) not_filter_names)
  from assms(1) a show ?thesis
    by (auto simp: Block_def bind_err_def split: if_splits intro!: clean_Module ca cm)
qed

lemma clean_GPT:
  assumes "GPT rope g cfg = Inr model"
  shows "clean [] (GPT_module model)"
proof -
  from assms obtain vocab blocks where
    b: "sequence_err (map (\<lambda>i. Block g cfg (int i)) [0..<n_layer cfg]) = Inr blocks"
    and t: "transformer model = ModuleDict
                   [(''wte'', Embedding g vocab (n_embd cfg)),
                    (''h'', ModuleList blocks),
                    (''ln_f'', norm_layer cfg (n_embd cfg) (norm_eps cfg))]"
    and l: "lm_head model = AdapterV2Linear g (n_embd cfg) vocab (lm_head_bias cfg)"
    by (auto simp: GPT_def bind_err_def split: option.splits sum.splits)
  have blk: "clean q m" if "\<not> adapter_filter q ()" "m \<in> set blocks" for q m
  proof -
    from that(2) obtain i where "i < length blocks" "m = blocks ! i"
      by (auto simp: in_set_conv_nth)
    with sequence_err_Inr[OF b] have "Block g cfg (int i) = Inr m" by auto
    then show ?thesis using that(1) by (rule clean_Block)
  qed
  have h: "clean (join_name ''transformer'' ''h'') (ModuleList blocks)"
    by (rule clean_ModuleList) (auto simp: adapter_filter_join not_filter_names intro: blk)
  have tr: "clean ''transformer'' (transformer model)"
    unfolding t ModuleDict_def by (intro clean_Module) (auto simp: h)
  have lm: "clean ''lm_head'' (lm_head model)"
    unfolding l by (rule clean_AdapterV2Linear) (simp add: not_filter_names)
  show ?thesis
    unfolding GPT_module_def
    by (intro clean_Module) (auto simp: join_name_def tr lm)
qed

lemma GPT_module_mark:
  "GPT_module (mark_only_adapter_v2_as_trainable model) = mark_from [] (GPT_module model)"
  by (simp add: GPT_module_def mark_only_adapter_v2_as_trainable_def join_name_def)

lemma adapter_filter_literal:
  "adapter_filter key v \<longleftrightarrow>
     (sublist ''adapter_wte'' key \<or> sublist ''gating_factor'' key
      \<or> sublist ''adapter_scale'' key \<or> sublist ''adapter_bias'' key
      \<or> sublist ''norm_1'' key \<or> sublist ''norm_2'' key \<or> sublist ''ln_f'' key)"
  by (simp add: adapter_filter_def adapter_substrings_def)

lemma marked_iff:
  "\<forall>np \<in> set (named_parameters (GPT_module (mark_only_adapter_v2_as_trainable model))).
       requires_grad (snd np) \<longleftrightarrow>
         (sublist ''adapter_wte'' (fst np) \<or> sublist ''gating_factor'' (fst np)
          \<or> sublist ''adapter_scale'' (fst np) \<or> sublist ''adapter_bias'' (fst np)
          \<or> sublist ''norm_1'' (fst np) \<or> sublist ''norm_2'' (fst np)
          \<or> sublist ''ln_f'' (fst np))"
proof
  fix np
  assume "np \<in> set (named_parameters (GPT_module (mark_only_adapter_v2_as_trainable model)))"
  then obtain np0 where "np = set_rg np0"
    by (auto simp: named_parameters_def GPT_module_mark named_parameters_mark_from)
  then have "requires_grad (snd np) = adapter_filter (fst np) (snd np0)"
    by (simp add: set_rg_def)
  then show "requires_grad (snd np) \<longleftrightarrow>
         (sublist ''adapter_wte'' (fst np) \<or> sublist ''gating_factor'' (fst np)
          \<or> sublist ''adapter_scale'' (fst np) \<or> sublist ''adapter_bias'' (fst np)
          \<or> sublist ''norm_1'' (fst np) \<or> sublist ''norm_2'' (fst np)
          \<or> sublist ''ln_f'' (fst np))"
    by (simp only: adapter_filter_literal)
qed

text \<open>
  Claim C2. After \<open>mark_only_adapter_v2_as_trainable(model)\<close>, a named parameter requires
  gradient if and only if its name contains \<open>adapter_wte\<close>, \<open>gating_factor\<close>,
  \<open>adapter_scale\<close>, \<open>adapter_bias\<close>, \<open>norm_1\<close>, \<open>norm_2\<close> or \<open>ln_f\<close>;
  names and values of the parameters are unchanged. In a constructed model every weight
  and bias of a wrapped projection and the token embedding are frozen.
\<close>

theorem C2_only_adapter_trainable:
  "(\<forall>np \<in> set (named_parameters (GPT_module (mark_only_adapter_v2_as_trainable model))).
       requires_grad (snd np) \<longleftrightarrow>
         (sublist ''adapter_wte'' (fst np) \<or> sublist ''gating_factor'' (fst np)
          \<or> sublist ''adapter_scale'' (fst np) \<or> sublist ''adapter_bias'' (fst np)
          \<or> sublist ''norm_1'' (fst np) \<or> sublist ''norm_2'' (fst np)
          \<or> sublist ''ln_f'' (fst np)))
   \<and> map fst (named_parameters (GPT_module (mark_only_adapter_v2_as_trainable model)))
       = map fst (named_parameters (GPT_module model))
   \<and> map (\<lambda>np. pdata (snd np))
         (named_parameters (GPT_module (mark_only_adapter_v2_as_trainable model)))
       = map (\<lambda>np. pdata (snd np)) (named_parameters (GPT_module model))
   \<and> set (linear_parameters (GPT_module (mark_only_adapter_v2_as_trainable model)))
       \<subseteq> set (named_parameters (GPT_module (mark_only_adapter_v2_as_trainable model)))
   \<and> (GPT rope g cfg = Inr model \<longrightarrow>
        (\<forall>np \<in> set (linear_parameters (GPT_module (mark_only_adapter_v2_as_trainable model))).
            \<not> requires_grad (snd np))
        \<and> (\<exists>p. (''transformer.wte.weight'', p)
                  \<in> set (named_parameters (GPT_module (mark_only_adapter_v2_as_trainable model)))
               \<and> \<not> requires_grad p))"
proof -
  let ?M = "GPT_module (mark_only_adapter_v2_as_trainable model)"
  have np: "named_parameters ?M = map set_rg (named_parameters (GPT_module model))"
    by (simp add: named_parameters_def GPT_module_mark named_parameters_mark_from)
  have lp: "linear_parameters ?M = map set_rg (linear_parameters (GPT_module model))"
    by (simp add: linear_parameters_def GPT_module_mark linear_parameters_mark_from)
  have 1: "\<forall>np \<in> set (named_parameters ?M).
       requires_grad (snd np) \<longleftrightarrow>
         (sublist ''adapter_wte'' (fst np) \<or> sublist ''gating_factor'' (fst np)
          \<or> sublist ''adapter_scale'' (fst np) \<or> sublist ''adapter_bias'' (fst np)
          \<or> sublist ''norm_1'' (fst np) \<or> sublist ''norm_2'' (fst np)
          \<or> sublist ''ln_f'' (fst np))"
    by (rule marked_iff)
  have 2: "map fst (named_parameters ?M) = map fst (named_parameters (GPT_module model))"
    by (simp add: np set_rg_def comp_def)
  have 3: "map (\<lambda>np. pdata (snd np)) (named_parameters ?M)
       = map (\<lambda>np. pdata (snd np)) (named_parameters (GPT_module model))"
    by (simp add: np set_rg_def comp_def)
  have 4: "set (linear_parameters ?M) \<subseteq> set (named_parameters ?M)"
    unfolding linear_parameters_def named_parameters_def by (rule linear_subset_named)
  have 5: "(\<forall>np \<in> set (linear_parameters ?M). \<not> requires_grad (snd np))
        \<and> (\<exists>p. (''transformer.wte.weight'', p) \<in> set (named_parameters ?M) \<and> \<not> requires_grad p)"
    if m: "GPT rope g cfg = Inr model"
  proof
    have c: "\<forall>np \<in> set (linear_parameters (GPT_module model)).
               \<not> adapter_filter (fst np) (snd np)"
      using clean_GPT[OF m] by (simp add: clean_def linear_parameters_def)
    show "\<forall>np \<in> set (linear_parameters ?M). \<not> requires_grad (snd np)"
      unfolding lp using c by (auto simp: set_rg_def)
  next
    from m obtain vocab blocks where
      t: "transformer model = ModuleDict
                   [(''wte'', Embedding g vocab (n_embd cfg)),
                    (''h'', ModuleList blocks),
                    (''ln_f'', norm_layer cfg (n_embd cfg) (norm_eps cfg))]"
      by (auto simp: GPT_def bind_err_def split: option.splits sum.splits)
    have "(''transformer.wte.weight'', Parameter (randn g [vocab, n_embd cfg]) True)
            \<in> set (named_parameters (GPT_module model))"
      by (simp add: named_parameters_def GPT_module_def t ModuleDict_def Embedding_def
          join_name_def)
    then have "set_rg (''transformer.wte.weight'', Parameter (randn g [vocab, n_embd cfg]) True)
            \<in> set (named_parameters ?M)"
      unfolding np by simp
    moreover have "\<not> adapter_filter ''transformer.wte.weight'' ()"
      by (simp add: adapter_filter_def adapter_substrings_def sublist_Cons_right)
    ultimately show "\<exists>p. (''transformer.wte.weight'', p) \<in> set (named_parameters ?M)
        \<and> \<not> requires_grad p"
      by (auto simp: set_rg_def adapter_filter_def)
  qed
  from 1 2 3 4 5 show ?thesis by blast
qed

text \<open>
  The parameters of the small model after marking, in the order of \<open>named_parameters\<close>,
  each with its \<open>requires_grad\<close>.
\<close>

lemma ex_marked_names:
  "map (\<lambda>np. (fst np, requires_grad (snd np)))
     (named_parameters (GPT_module (mark_only_adapter_v2_as_trainable
        (projr (GPT ex_rope_cache int ex_config))))) =
     [(''lm_head.adapter_bias'', True), (''lm_head.adapter_scale'', True),
      (''lm_head.linear.weight'', False), (''transformer.wte.weight'', False),
      (''transformer.h.0.norm_1.weight'', True),
      (''transformer.h.0.attn.qkv.adapter_bias'', True),
      (''transformer.h.0.attn.qkv.adapter_scale'', True),
      (''transformer.h.0.attn.qkv.linear.weight'', False),
      (''transformer.h.0.attn.proj.adapter_bias'', True),
      (''transformer.h.0.attn.proj.adapter_scale'', True),
      (''transformer.h.0.attn.proj.linear.weight'', False),
      (''transformer.h.0.norm_2.weight'', True),
      (''transformer.h.0.mlp.fc_1.adapter_bias'', True),
      (''transformer.h.0.mlp.fc_1.adapter_scale'', True),
      (''transformer.h.0.mlp.fc_1.linear.weight'', False),
      (''transformer.h.0.mlp.fc_2.adapter_bias'', True),
      (''transformer.h.0.mlp.fc_2.adapter_scale'', True),
      (''transformer.h.0.mlp.fc_2.linear.weight'', False),
      (''transformer.h.0.mlp.proj.adapter_bias'', True),
      (''transformer.h.0.mlp.proj.adapter_scale'', True),
      (''transformer.h.0.mlp.proj.linear.weight'', False),
      (''transformer.h.1.norm_1.weight'', True),
      (''transformer.h.1.attn.qkv.adapter_bias'', True),
      (''transformer.h.1.attn.qkv.adapter_scale'', True),
      (''transformer.h.1.attn.qkv.linear.weight'', False),
      (''transformer.h.1.attn.proj.adapter_bias'', True),
      (''transformer.h.1.attn.proj.adapter_scale'', True),
      (''transformer.h.1.attn.proj.linear.weight'', False),
      (''transformer.h.1.norm_2.weight'', True),
      (''transformer.h.1.mlp.fc_1.adapter_bias'', True),
      (''transformer.h.1.mlp.fc_1.adapter_scale'', True),
      (''transformer.h.1.mlp.fc_1.linear.weight'', False),
      (''transformer.h.1.mlp.fc_2.adapter_bias'', True),
      (''transformer.h.1.mlp.fc_2.adapter_scale'', True),
      (''transformer.h.1.mlp.fc_2.linear.weight'', False),
      (''transformer.h.1.mlp.proj.adapter_bias'', True),
      (''transformer.h.1.mlp.proj.adapter_scale'', True),
      (''transformer.h.1.mlp.proj.linear.weight'', False),
      (''transformer.h.2.norm_1.weight'', True),
      (''transformer.h.2.attn.gating_factor'', True),
      (''transformer.h.2.attn.qkv.adapter_bias'', True),
      (''transformer.h.2.attn.qkv.adapter_scale'', True),
      (''transformer.h.2.attn.qkv.linear.weight'', False),
      (''transformer.h.2.attn.proj.adapter_bias'', True),
      (''transformer.h.2.attn.proj.adapter_scale'', True),
      (''transformer.h.2.attn.proj.linear.weight'', False),
      (''transformer.h.2.attn.adapter_wte.weight'', True),
      (''transformer.h.2.norm_2.weight'', True),
      (''transformer.h.2.mlp.fc_1.adapter_bias'', True),
      (''transformer.h.2.mlp.fc_1.adapter_scale'', True),
      (''transformer.h.2.mlp.fc_1.linear.weight'', False),
      (''transformer.h.2.mlp.fc_2.adapter_bias'', True),
      (''transformer.h.2.mlp.fc_2.adapter_scale'', True),
      (''transformer.h.2.mlp.fc_2.linear.weight'', False),
      (''transformer.h.2.mlp.proj.adapter_bias'', True),
      (''transformer.h.2.mlp.proj.adapter_scale'', True),
      (''transformer.h.2.mlp.proj.linear.weight'', False),
      (''transformer.ln_f.weight'', True)]"
  by code_simp

theorem C2_only_adapter_trainable_witness:
  "\<exists>model :: int GPT. GPT ex_rope_cache int ex_config = Inr model
     \<and> (\<forall>np \<in> set (named_parameters (GPT_module (mark_only_adapter_v2_as_trainable model))).
           requires_grad (snd np) \<longleftrightarrow>
             (sublist ''adapter_wte'' (fst np) \<or> sublist ''gating_factor'' (fst np)
              \<or> sublist ''adapter_scale'' (fst np) \<or> sublist ''adapter_bias'' (fst np)
              \<or> sublist ''norm_1'' (fst np) \<or> sublist ''norm_2'' (fst np)
              \<or> sublist ''ln_f'' (fst np)))
     \<and> (\<forall>np \<in> set (linear_parameters (GPT_module (mark_only_adapter_v2_as_trainable model))).
           \<not> requires_grad (snd np))
     \<and> (\<exists>p. (''transformer.wte.weight'', p)
               \<in> set (named_parameters (GPT_module (mark_only_adapter_v2_as_trainable model)))
            \<and> \<not> requires_grad p)
     \<and> map (\<lambda>np. (fst np, requires_grad (snd np)))
           (named_parameters (GPT_module (mark_only_adapter_v2_as_trainable model))) =
     [(''lm_head.adapter_bias'', True), (''lm_head.adapter_scale'', True),
      (''lm_head.linear.weight'', False), (''transformer.wte.weight'', False),
      (''transformer.h.0.norm_1.weight'', True),
      (''transformer.h.0.attn.qkv.adapter_bias'', True),
      (''transformer.h.0.attn.qkv.adapter_scale'', True),
      (''transformer.h.0.attn.qkv.linear.weight'', False),
      (''transformer.h.0.attn.proj.adapter_bias'', True),
      (''transformer.h.0.attn.proj.adapter_scale'', True),
      (''transformer.h.0.attn.proj.linear.weight'', False),
      (''transformer.h.0.norm_2.weight'', True),
      (''transformer.h.0.mlp.fc_1.adapter_bias'', True),
      (''transformer.h.0.mlp.fc_1.adapter_scale'', True),
      (''transformer.h.0.mlp.fc_1.linear.weight'', False),
      (''transformer.h.0.mlp.fc_2.adapter_bias'', True),
      (''transformer.h.0.mlp.fc_2.adapter_scale'', True),
      (''transformer.h.0.mlp.fc_2.linear.weight'', False),
      (''transformer.h.0.mlp.proj.adapter_bias'', True),
      (''transformer.h.0.mlp.proj.adapter_scale'', True),
      (''transformer.h.0.mlp.proj.linear.weight'', False),
      (''transformer.h.1.norm_1.weight'', True),
      (''transformer.h.1.attn.qkv.adapter_bias'', True),
      (''transformer.h.1.attn.qkv.adapter_scale'', True),
      (''transformer.h.1.attn.qkv.linear.weight'', False),
      (''transformer.h.1.attn.proj.adapter_bias'', True),
      (''transformer.h.1.attn.proj.adapter_scale'', True),
      (''transformer.h.1.attn.proj.linear.weight'', False),
      (''transformer.h.1.norm_2.weight'', True),
      (''transformer.h.1.mlp.fc_1.adapter_bias'', True),
      (''transformer.h.1.mlp.fc_1.adapter_scale'', True),
      (''transformer.h.1.mlp.fc_1.linear.weight'', False),
      (''transformer.h.1.mlp.fc_2.adapter_bias'', True),
      (''transformer.h.1.mlp.fc_2.adapter_scale'', True),
      (''transformer.h.1.mlp.fc_2.linear.weight'', False),
      (''transformer.h.1.mlp.proj.adapter_bias'', True),
      (''transformer.h.1.mlp.proj.adapter_scale'', True),
      (''transformer.h.1.mlp.proj.linear.weight'', False),
      (''transformer.h.2.norm_1.weight'', True),
      (''transformer.h.2.attn.gating_factor'', True),
      (''transformer.h.2.attn.qkv.adapter_bias'', True),
      (''transformer.h.2.attn.qkv.adapter_scale'', True),
      (''transformer.h.2.attn.qkv.linear.weight'', False),
      (''transformer.h.2.attn.proj.adapter_bias'', True),
      (''transformer.h.2.attn.proj.adapter_scale'', True),
      (''transformer.h.2.attn.proj.linear.weight'', False),
      (''transformer.h.2.attn.adapter_wte.weight'', True),
      (''transformer.h.2.norm_2.weight'', True),
      (''transformer.h.2.mlp.fc_1.adapter_bias'', True),
      (''transformer.h.2.mlp.fc_1.adapter_scale'', True),
      (''transformer.h.2.mlp.fc_1.linear.weight'', False),
      (''transformer.h.2.mlp.fc_2.adapter_bias'', True),
      (''transformer.h.2.mlp.fc_2.adapter_scale'', True),
      (''transformer.h.2.mlp.fc_2.linear.weight'', False),
      (''transformer.h.2.mlp.proj.adapter_bias'', True),
      (''transformer.h.2.mlp.proj.adapter_scale'', True),
      (''transformer.h.2.mlp.proj.linear.weight'', False),
      (''transformer.ln_f.weight'', True)]"
proof -
  from ex_GPT_ok obtain model :: "int GPT" where m: "GPT ex_rope_cache int ex_config = Inr model"
    by blast
  have p: "projr (GPT ex_rope_cache int ex_config) = model" by (simp add: m)
  note l = ex_marked_names[unfolded p]
  note c = C2_only_adapter_trainable[of model ex_rope_cache int ex_config]
  from c have c1: "\<forall>np \<in> set (named_parameters (GPT_module (mark_only_adapter_v2_as_trainable model))).
           requires_grad (snd np) \<longleftrightarrow>
             (sublist ''adapter_wte'' (fst np) \<or> sublist ''gating_factor'' (fst np)
              \<or> sublist ''adapter_scale'' (fst np) \<or> sublist ''adapter_bias'' (fst np)
              \<or> sublist ''norm_1'' (fst np) \<or> sublist ''norm_2'' (fst np)
              \<or> sublist ''ln_f'' (fst np))"
    by (rule conjunct1)
  from c m have c5: "(\<forall>np \<in> set (linear_parameters (GPT_module (mark_only_adapter_v2_as_trainable model))).
           \<not> requires_grad (snd np))
     \<and> (\<exists>p. (''transformer.wte.weight'', p)
               \<in> set (named_parameters (GPT_module (mark_only_adapter_v2_as_trainable model)))
            \<and> \<not> requires_grad p)"
    by (elim conjE) (erule mp)
  show ?thesis
    by (rule exI[of _ model]) (intro conjI m c1 conjunct1[OF c5] conjunct2[OF c5] l)
qed

text \<open>
  Claim C6, as stated, fails: a freshly constructed \<open>AdapterV2Linear\<close> has both adapter
  parameters frozen.
\<close>

theorem C6_counterexample:
  "map_sum id requires_grad (get_param (AdapterV2Linear int 2 3 True) ''adapter_scale'') = Inr False
   \<and> map_sum id requires_grad (get_param (AdapterV2Linear int 2 3 True) ''adapter_bias'') = Inr False"
  by (simp add: AdapterV2Linear_def get_param_def Parameter_def)

text \<open>
  Claim C6, amended. A freshly constructed \<open>AdapterV2Linear\<close> has \<open>adapter_scale\<close> (ones)
  and \<open>adapter_bias\<close> (zeros) with \<open>requires_grad = False\<close>; they require gradient once
  the marking of \<open>mark_only_adapter_v2_as_trainable\<close> has visited the layer, under whatever
  name the layer is registered.
\<close>

theorem C6_constructed_frozen_until_marked:
  "get_param (AdapterV2Linear g nin nout use_bias) ''adapter_scale''
       = Inr (Parameter (ones [nout]) False)
   \<and> get_param (AdapterV2Linear g nin nout use_bias) ''adapter_bias''
       = Inr (Parameter (zeros [nout]) False)
   \<and> get_param (mark_from pfx (AdapterV2Linear g nin nout use_bias)) ''adapter_scale''
       = Inr (Parameter (ones [nout]) True)
   \<and> get_param (mark_from pfx (AdapterV2Linear g nin nout use_bias)) ''adapter_bias''
       = Inr (Parameter (zeros [nout]) True)"
proof -
  have "adapter_filter ''adapter_scale'' ()" "adapter_filter ''adapter_bias'' ()"
    by (simp_all add: adapter_filter_def adapter_substrings_def sublist_Cons_right)
  then show ?thesis
    by (simp add: AdapterV2Linear_def get_param_def Parameter_def adapter_filter_join)
qed

lemma wrapped_AdapterV2Linear [simp]: "linears_wrapped (AdapterV2Linear g a b c)"
  by (simp add: AdapterV2Linear_def Linear_def)

lemma wrapped_leaves [simp]:
  "linears_wrapped (Embedding g n d)" "linears_wrapped (norm_layer cfg n eps)"
  "linears_wrapped Identity"
  by (simp_all add: Embedding_def norm_layer_def LayerNorm_def RMSNorm_def Identity_def
      split: norm_class.splits)

lemma cls_simps [simp]:
  "cls (AdapterV2Linear g a b c) = C_AdapterV2Linear"
  "cls (Embedding g n d) = C_Embedding"
  "cls (norm_layer cfg n eps) \<noteq> C_Linear"
  "cls Identity = C_Identity"
  "cls (ModuleList ms) = C_ModuleList"
  by (simp_all add: AdapterV2Linear_def Embedding_def norm_layer_def LayerNorm_def RMSNorm_def
      Identity_def ModuleList_def split: norm_class.splits)

lemma wrapped_ModuleList:
  assumes "\<And>m. m \<in> set ms \<Longrightarrow> linears_wrapped m \<and> cls m \<noteq> C_Linear"
  shows "linears_wrapped (ModuleList ms)"
  using assms by (auto simp: ModuleList_def list_all_iff)

lemma wrapped_CausalSelfAttention:
  assumes "CausalSelfAttention g cfg i = Inr m"
  shows "linears_wrapped m \<and> cls m = C_CausalSelfAttention
     \<and> is_AdapterV2Linear m ''qkv'' \<and> is_AdapterV2Linear m ''proj''"
  using assms
  by (auto simp: CausalSelfAttention_def Let_def is_AdapterV2Linear_def split: if_splits)

lemma wrapped_LLaMAMLP_init:
  "c \<noteq> C_Linear \<Longrightarrow> linears_wrapped (LLaMAMLP_init c g cfg) \<and> cls (LLaMAMLP_init c g cfg) = c
     \<and> is_AdapterV2Linear (LLaMAMLP_init c g cfg) ''fc_1''
     \<and> is_AdapterV2Linear (LLaMAMLP_init c g cfg) ''fc_2''
     \<and> is_AdapterV2Linear (LLaMAMLP_init c g cfg) ''proj''"
  by (simp add: LLaMAMLP_init_def is_AdapterV2Linear_def)

lemma wrapped_mlp:
  "linears_wrapped (mlp_class cfg g cfg) \<and> cls (mlp_class cfg g cfg) \<noteq> C_Linear
     \<and> mlp_projections_adapted cfg (mlp_class cfg g cfg)"
proof (cases "mlp_class_name cfg")
  case GptNeoxMLP_name
  then show ?thesis
    by (simp add: mlp_class_def GptNeoxMLP_def mlp_projections_adapted_def is_AdapterV2Linear_def)
next
  case LLaMAMLP_name
  then show ?thesis
    using wrapped_LLaMAMLP_init[of C_LLaMAMLP g cfg]
    by (simp add: mlp_class_def LLaMAMLP_def mlp_projections_adapted_def)
next
  case GemmaMLP_name
  then show ?thesis
    using wrapped_LLaMAMLP_init[of C_GemmaMLP g cfg]
    by (simp add: mlp_class_def GemmaMLP_def mlp_projections_adapted_def)
next
  case LLaMAMoE_name
  let ?ex = "ModuleList (map (\<lambda>_. LLaMAMLP g cfg) [0..<n_expert cfg])"
  have w: "linears_wrapped ?ex"
    by (rule wrapped_ModuleList)
       (use wrapped_LLaMAMLP_init[of C_LLaMAMLP g cfg] in \<open>auto simp: LLaMAMLP_def\<close>)
  have e: "length (children ?ex) = n_expert cfg
      \<and> list_all (\<lambda>ne. is_AdapterV2Linear (snd ne) ''fc_1''
                                   \<and> is_AdapterV2Linear (snd ne) ''fc_2''
                                   \<and> is_AdapterV2Linear (snd ne) ''proj'') (children ?ex)"
    using wrapped_LLaMAMLP_init[of C_LLaMAMLP g cfg]
    by (simp add: ModuleList_def list_all_iff LLaMAMLP_def)
  show ?thesis
    using w e LLaMAMoE_name
    by (simp add: mlp_class_def LLaMAMoE_def mlp_projections_adapted_def is_AdapterV2Linear_def)
qed

lemma wrapped_Block:
  assumes "Block g cfg i = Inr b"
  shows "linears_wrapped b \<and> cls b = C_Block
     \<and> (\<exists>mlp. get_child b ''mlp'' = Inr mlp \<and> mlp_projections_adapted cfg mlp)"
proof -
  from assms obtain attn where a: "CausalSelfAttention g cfg i = Inr attn"
    by (auto simp: Block_def bind_err_def split: if_splits sum.splits)
  note wa = wrapped_CausalSelfAttention[OF a]
  note wm = wrapped_mlp[of cfg g]
  from assms a wa wm show ?thesis
    by (auto simp: Block_def bind_err_def get_child_def split: if_splits)
qed

lemma GPT_block:
  assumes "GPT rope g cfg = Inr model" "i < n_layer cfg"
  shows "\<exists>h b. get_child (transformer model) ''h'' = Inr h \<and> i < length (children h)
     \<and> snd (children h ! i) = b \<and> Block g cfg (int i) = Inr b"
proof -
  from assms(1) obtain vocab blocks where
    b: "sequence_err (map (\<lambda>i. Block g cfg (int i)) [0..<n_layer cfg]) = Inr blocks"
    and t: "transformer model = ModuleDict
                   [(''wte'', Embedding g vocab (n_embd cfg)),
                    (''h'', ModuleList blocks),
                    (''ln_f'', norm_layer cfg (n_embd cfg) (norm_eps cfg))]"
    by (auto simp: GPT_def bind_err_def split: option.splits sum.splits)
  from sequence_err_Inr[OF b] assms(2)
  have len: "length blocks = n_layer cfg" and bi: "Block g cfg (int i) = Inr (blocks ! i)"
    by auto
  have h: "get_child (transformer model) ''h'' = Inr (ModuleList blocks)"
    by (simp add: t ModuleDict_def get_child_def)
  show ?thesis
    using h len assms(2) bi by (simp add: ModuleList_def)
qed

text \<open>
  Claim C4. In every constructed model each \<open>torch.nn.Linear\<close> is the attribute
  \<open>linear\<close> of an \<open>AdapterV2Linear\<close>, and the projections are \<open>AdapterV2Linear\<close>
  instances: \<open>lm_head\<close>, \<open>qkv\<close> and \<open>proj\<close> of every block's attention, and the
  projections of every block's MLP (\<open>fc\<close>, \<open>proj\<close>; or \<open>fc_1\<close>, \<open>fc_2\<close>, \<open>proj\<close>;
  or \<open>gate\<close> and the three projections of each expert).
\<close>

theorem C4_all_projections_adapted:
  assumes "GPT rope g cfg = Inr model"
  shows "linears_wrapped (GPT_module model)
     \<and> cls (lm_head model) = C_AdapterV2Linear
     \<and> (\<forall>i < n_layer cfg. \<exists>attn mlp.
           block_attn model i = Inr attn
           \<and> is_AdapterV2Linear attn ''qkv'' \<and> is_AdapterV2Linear attn ''proj''
           \<and> block_mlp model i = Inr mlp \<and> mlp_projections_adapted cfg mlp)"
proof -
  from assms obtain vocab blocks where
    b: "sequence_err (map (\<lambda>i. Block g cfg (int i)) [0..<n_layer cfg]) = Inr blocks"
    and t: "transformer model = ModuleDict
                   [(''wte'', Embedding g vocab (n_embd cfg)),
                    (''h'', ModuleList blocks),
                    (''ln_f'', norm_layer cfg (n_embd cfg) (norm_eps cfg))]"
    and l: "lm_head model = AdapterV2Linear g (n_embd cfg) vocab (lm_head_bias cfg)"
    by (auto simp: GPT_def bind_err_def split: option.splits sum.splits)
  have blk: "linears_wrapped m \<and> cls m \<noteq> C_Linear" if "m \<in> set blocks" for m
  proof -
    from that obtain i where "i < length blocks" "m = blocks ! i"
      by (auto simp: in_set_conv_nth)
    with sequence_err_Inr[OF b] have "Block g cfg (int i) = Inr m" by auto
    from wrapped_Block[OF this] show ?thesis by simp
  qed
  have 1: "linears_wrapped (GPT_module model)"
    using wrapped_ModuleList[of blocks, OF blk]
    by (simp add: GPT_module_def t l ModuleDict_def)
  have 2: "cls (lm_head model) = C_AdapterV2Linear" by (simp add: l)
  have 3: "\<exists>attn mlp. block_attn model i = Inr attn
           \<and> is_AdapterV2Linear attn ''qkv'' \<and> is_AdapterV2Linear attn ''proj''
           \<and> block_mlp model i = Inr mlp \<and> mlp_projections_adapted cfg mlp"
    if "i < n_layer cfg" for i
  proof -
    from GPT_block[OF assms that] obtain h bk where
      h: "get_child (transformer model) ''h'' = Inr h" "i < length (children h)"
        "snd (children h ! i) = bk" "Block g cfg (int i) = Inr bk"
      by blast
    from GPT_block_attn[OF assms that] obtain attn where
      a: "block_attn model i = Inr attn" "CausalSelfAttention g cfg (int i) = Inr attn"
      by blast
    from wrapped_Block[OF h(4)] obtain mlp where
      m: "get_child bk ''mlp'' = Inr mlp" "mlp_projections_adapted cfg mlp"
      by blast
    have "block_mlp model i = Inr mlp"
      using h m(1) by (simp add: block_mlp_def bind_err_def)
    with a wrapped_CausalSelfAttention[OF a(2)] m(2) show ?thesis by blast
  qed
  from 1 2 3 show ?thesis by blast
qed

theorem C4_all_projections_adapted_witness:
  "\<exists>model :: int GPT. GPT ex_rope_cache int ex_config = Inr model
     \<and> linears_wrapped (GPT_module model)
     \<and> cls (lm_head model) = C_AdapterV2Linear
     \<and> (\<exists>attn mlp. block_attn model 0 = Inr attn
           \<and> is_AdapterV2Linear attn ''qkv'' \<and> is_AdapterV2Linear attn ''proj''
           \<and> block_mlp model 0 = Inr mlp
           \<and> is_AdapterV2Linear mlp ''fc_1'' \<and> is_AdapterV2Linear mlp ''fc_2''
           \<and> is_AdapterV2Linear mlp ''proj'')"
proof -
  from ex_GPT_ok obtain model :: "int GPT" where m: "GPT ex_rope_cache int ex_config = Inr model"
    by blast
  have n: "0 < n_layer ex_config" by (simp add: ex_config_def)
  from C4_all_projections_adapted[OF m] n m
  show ?thesis by (fastforce simp: mlp_projections_adapted_def ex_config_def)
qed

lemma map_old_other:
  assumes "\<forall>e \<in> set m. k \<noteq> pfx @ fst e \<and> k \<noteq> pfx @ snd e"
  shows "map_old_state_dict_weights sd m pfx k = sd k"
  using assms
  by (induction m arbitrary: sd) (auto split: option.splits)

lemma map_old_fixed:
  assumes "\<forall>e \<in> set m. sd (pfx @ fst e) = None"
  shows "map_old_state_dict_weights sd m pfx = sd"
  using assms by (induction m arbitrary: sd) auto

lemma map_old_old:
  assumes "distinct (map fst m)" "set (map fst m) \<inter> set (map snd m) = {}" "e \<in> set m"
  shows "map_old_state_dict_weights sd m pfx (pfx @ fst e) = None"
  using assms
proof (induction m arbitrary: sd)
  case Nil
  then show ?case by simp
next
  case (Cons a m)
  let ?sd1 = "(case sd (pfx @ fst a) of None \<Rightarrow> sd
              | Some v \<Rightarrow> (sd(pfx @ fst a := None))(pfx @ snd a \<mapsto> v))"
  have step: "map_old_state_dict_weights sd (a # m) pfx = map_old_state_dict_weights ?sd1 m pfx"
    by (simp split: option.splits)
  show ?case
  proof (cases "e = a")
    case True
    have ne: "fst a \<noteq> snd a" using Cons.prems(2) by auto
    have "\<forall>x \<in> set m. pfx @ fst e \<noteq> pfx @ fst x \<and> pfx @ fst e \<noteq> pfx @ snd x"
      using Cons.prems(1,2) True by (auto simp: rev_image_eqI)
    then have "map_old_state_dict_weights ?sd1 m pfx (pfx @ fst e) = ?sd1 (pfx @ fst e)"
      by (rule map_old_other)
    also have "\<dots> = None" using True ne by (auto split: option.splits)
    finally show ?thesis unfolding step .
  next
    case False
    with Cons.prems have "e \<in> set m" "distinct (map fst m)"
      "set (map fst m) \<inter> set (map snd m) = {}" by auto
    then show ?thesis unfolding step by (intro Cons.IH)
  qed
qed

lemma map_old_new:
  assumes "distinct (map fst m)" "distinct (map snd m)"
    "set (map fst m) \<inter> set (map snd m) = {}" "e \<in> set m"
  shows "map_old_state_dict_weights sd m pfx (pfx @ snd e) =
     (case sd (pfx @ fst e) of Some v \<Rightarrow> Some v | None \<Rightarrow> sd (pfx @ snd e))"
  using assms
proof (induction m arbitrary: sd)
  case Nil
  then show ?case by simp
next
  case (Cons a m)
  let ?sd1 = "(case sd (pfx @ fst a) of None \<Rightarrow> sd
              | Some v \<Rightarrow> (sd(pfx @ fst a := None))(pfx @ snd a \<mapsto> v))"
  have step: "map_old_state_dict_weights sd (a # m) pfx = map_old_state_dict_weights ?sd1 m pfx"
    by (simp split: option.splits)
  show ?case
  proof (cases "e = a")
    case True
    have ne: "fst a \<noteq> snd a" using Cons.prems(3) by auto
    have "\<forall>x \<in> set m. pfx @ snd e \<noteq> pfx @ fst x \<and> pfx @ snd e \<noteq> pfx @ snd x"
      using Cons.prems(1,2,3) True by (auto simp: rev_image_eqI)
    then have "map_old_state_dict_weights ?sd1 m pfx (pfx @ snd e) = ?sd1 (pfx @ snd e)"
      by (rule map_old_other)
    also have "\<dots> = (case sd (pfx @ fst e) of Some v \<Rightarrow> Some v | None \<Rightarrow> sd (pfx @ snd e))"
      using True ne by (auto split: option.splits)
    finally show ?thesis unfolding step .
  next
    case False
    with Cons.prems have m: "e \<in> set m" "distinct (map fst m)" "distinct (map snd m)"
      "set (map fst m) \<inter> set (map snd m) = {}" by auto
    have d: "fst e \<noteq> fst a" "fst e \<noteq> snd a" "snd e \<noteq> snd a" "snd e \<noteq> fst a"
      using Cons.prems(1,2,3) m(1) by (auto simp: rev_image_eqI)
    have "map_old_state_dict_weights ?sd1 m pfx (pfx @ snd e) =
     (case ?sd1 (pfx @ fst e) of Some v \<Rightarrow> Some v | None \<Rightarrow> ?sd1 (pfx @ snd e))"
      using m by (intro Cons.IH)
    also have "\<dots> = (case sd (pfx @ fst e) of Some v \<Rightarrow> Some v | None \<Rightarrow> sd (pfx @ snd e))"
      using d by (auto split: option.splits)
    finally show ?thesis unfolding step .
  qed
qed

lemma mapping_props:
  assumes "m \<in> {GPT_mapping, CausalSelfAttention_mapping, GptNeoxMLP_mapping,
                 LLaMAMLP_mapping, LLaMAMoE_mapping}"
  shows "distinct (map fst m)" "distinct (map snd m)" "set (map fst m) \<inter> set (map snd m) = {}"
  using assms
  by (auto simp: GPT_mapping_def CausalSelfAttention_mapping_def GptNeoxMLP_mapping_def
      LLaMAMLP_mapping_def LLaMAMoE_mapping_def)

lemma map_old_idem:
  assumes "distinct (map fst m)" "set (map fst m) \<inter> set (map snd m) = {}"
  shows "map_old_state_dict_weights (map_old_state_dict_weights sd m pfx) m pfx
           = map_old_state_dict_weights sd m pfx"
  by (rule map_old_fixed) (simp add: map_old_old[OF assms])

lemma convert_gating_factor_other:
  assumes "convert_gating_factor self sd pfx = Inr sd'" "k \<noteq> pfx @ ''gating_factor''"
  shows "sd' k = sd k"
  using assms
  by (auto simp: convert_gating_factor_def Let_def bind_err_def
      split: option.splits sum.splits if_splits)

lemma convert_legacy_Inr:
  assumes "convert_legacy qk self pfx attr sd = Inr sd'"
  shows "(sd (pfx @ ''attn.linear.'' @ attr) = None \<and> sd' = sd)
     \<or> (\<exists>t cfg t'. sd (pfx @ ''attn.linear.'' @ attr) = Some t \<and> get_config self = Inr cfg
           \<and> qk t cfg = Inr t'
           \<and> sd' = (sd(pfx @ ''attn.linear.'' @ attr := None))(pfx @ ''qkv.linear.'' @ attr \<mapsto> t'))"
  using assms
  by (auto simp: convert_legacy_def Let_def bind_err_def split: option.splits sum.splits)

lemma load_legacy:
  assumes l: "CausalSelfAttention_load_from_state_dict qk sl self sd pfx = Inr (sd', self')"
    and a: "attr = ''weight'' \<or> attr = ''bias''"
    and t: "sd (pfx @ ''attn.linear.'' @ attr) = Some t"
  shows "\<exists>cfg t'. get_config self = Inr cfg \<and> qk t cfg = Inr t'
           \<and> sd' (pfx @ ''qkv.linear.'' @ attr) = Some t'
           \<and> sd' (pfx @ ''attn.linear.'' @ attr) = None"
proof -
  let ?sd0 = "map_old_state_dict_weights sd CausalSelfAttention_mapping pfx"
  from l obtain sd1 sd2 where
    g: "convert_gating_factor self ?sd0 pfx = Inr sd1"
    and w: "convert_legacy qk self pfx ''weight'' sd1 = Inr sd2"
    and b: "convert_legacy qk self pfx ''bias'' sd2 = Inr sd'"
    by (auto simp: CausalSelfAttention_load_from_state_dict_def bind_err_def split: sum.splits)
  have "?sd0 (pfx @ ''attn.linear.'' @ attr) = sd (pfx @ ''attn.linear.'' @ attr)"
    using a by (intro map_old_other) (auto simp: CausalSelfAttention_mapping_def)
  moreover have "sd1 (pfx @ ''attn.linear.'' @ attr) = ?sd0 (pfx @ ''attn.linear.'' @ attr)"
    using a by (intro convert_gating_factor_other[OF g]) auto
  ultimately have 1: "sd1 (pfx @ ''attn.linear.'' @ attr) = Some t" using t by simp
  from a show ?thesis
  proof
    assume aw: "attr = ''weight''"
    from convert_legacy_Inr[OF w] 1 aw obtain cfg t' where
      c: "get_config self = Inr cfg" "qk t cfg = Inr t'"
      and s2: "sd2 = (sd1(pfx @ ''attn.linear.weight'' := None))(pfx @ ''qkv.linear.weight'' \<mapsto> t')"
      by auto
    from convert_legacy_Inr[OF b] s2
    have "sd' (pfx @ ''qkv.linear.weight'') = Some t' \<and> sd' (pfx @ ''attn.linear.weight'') = None"
      by auto
    with c aw show ?thesis by auto
  next
    assume ab: "attr = ''bias''"
    from convert_legacy_Inr[OF w] 1 ab have "sd2 (pfx @ ''attn.linear.bias'') = Some t"
      by auto
    with convert_legacy_Inr[OF b] ab show ?thesis by auto
  qed
qed

lemma load_super:
  assumes "CausalSelfAttention_load_from_state_dict qk sl self sd pfx = Inr (sd', self')"
  shows "self' = sl self sd' pfx"
  using assms
  by (auto simp: CausalSelfAttention_load_from_state_dict_def bind_err_def split: sum.splits)

lemma convert_legacy_other:
  assumes "convert_legacy qk self pfx attr sd = Inr sd'"
    "k \<noteq> pfx @ ''attn.linear.'' @ attr" "k \<noteq> pfx @ ''qkv.linear.'' @ attr"
  shows "sd' k = sd k"
  using convert_legacy_Inr[OF assms(1)] assms(2,3) by auto

lemma concat_singletons: "concat (map (\<lambda>k. [f k]) xs) = map f xs"
  by (induction xs) auto

lemma permute_old_layout:
  assumes "shape t = [1, n, 1, 1]" "length (elems t) = n"
  shows "permute_0213 t = Inr (Tensor [1, 1, n, 1] (elems t))"
proof -
  have "map (\<lambda>k. elems t ! k) [0..<n] = elems t"
    using assms(2) map_nth[of "elems t"] by simp
  then show ?thesis
    using assms(1) by (simp add: permute_0213_def concat_singletons)
qed

lemma load_gating:
  assumes l: "CausalSelfAttention_load_from_state_dict qk sl self sd pfx = Inr (sd', self')"
    and c: "get_config self = Inr cfg"
    and t: "sd (pfx @ ''gating_factor'') = Some t"
  shows "\<exists>n. size_dim t 1 = Inr n
     \<and> (if n = n_head cfg
        then \<exists>t'. permute_0213 t = Inr t' \<and> sd' (pfx @ ''gating_factor'') = Some t'
        else sd' (pfx @ ''gating_factor'') = Some t)"
proof -
  let ?sd0 = "map_old_state_dict_weights sd CausalSelfAttention_mapping pfx"
  let ?k = "pfx @ ''gating_factor''"
  from l obtain sd1 sd2 where
    g: "convert_gating_factor self ?sd0 pfx = Inr sd1"
    and w: "convert_legacy qk self pfx ''weight'' sd1 = Inr sd2"
    and b: "convert_legacy qk self pfx ''bias'' sd2 = Inr sd'"
    by (auto simp: CausalSelfAttention_load_from_state_dict_def bind_err_def split: sum.splits)
  have 0: "?sd0 ?k = Some t"
    unfolding t[symmetric]
    by (intro map_old_other) (auto simp: CausalSelfAttention_mapping_def)
  have "sd2 ?k = sd1 ?k" by (rule convert_legacy_other[OF w]) auto
  moreover have "sd' ?k = sd2 ?k" by (rule convert_legacy_other[OF b]) auto
  ultimately have e: "sd' ?k = sd1 ?k" by simp
  from g 0 c show ?thesis
    unfolding e
    by (auto simp: convert_gating_factor_def Let_def bind_err_def split: sum.splits if_splits)
qed

text \<open>
  Claim C7. When the attention loader succeeds on a state dict that holds \<open>gating_factor\<close>
  under the module's prefix: a tensor with \<open>n_head\<close> at dimension 1 is replaced by its
  permutation with dims \<open>(0, 2, 1, 3)\<close>; for the older layout \<open>(1, n_head, 1, 1)\<close> that is
  the tensor of shape \<open>(1, 1, n_head, 1)\<close> with the same elements; a tensor in the current
  layout (with \<open>n_head > 1\<close>), and any tensor whose dimension 1 differs from \<open>n_head\<close>, is
  left as it is.
\<close>

theorem C7_gating_factor_layout:
  assumes "CausalSelfAttention_load_from_state_dict qk sl self state_dict pfx = Inr (sd', self')"
    and "get_config self = Inr cfg"
    and "state_dict (pfx @ ''gating_factor'') = Some t"
  shows "(size_dim t 1 = Inr (n_head cfg) \<longrightarrow>
            (\<exists>t'. permute_0213 t = Inr t' \<and> sd' (pfx @ ''gating_factor'') = Some t'))
     \<and> (shape t = [1, n_head cfg, 1, 1] \<and> wf_tensor t \<longrightarrow>
            sd' (pfx @ ''gating_factor'') = Some (Tensor [1, 1, n_head cfg, 1] (elems t)))
     \<and> (shape t = [1, 1, n_head cfg, 1] \<and> n_head cfg > 1 \<longrightarrow>
            sd' (pfx @ ''gating_factor'') = Some t)
     \<and> (\<forall>n. size_dim t 1 = Inr n \<and> n \<noteq> n_head cfg \<longrightarrow>
            sd' (pfx @ ''gating_factor'') = Some t)"
proof -
  from load_gating[OF assms] obtain n where
    n: "size_dim t 1 = Inr n"
    and r: "if n = n_head cfg
        then \<exists>t'. permute_0213 t = Inr t' \<and> sd' (pfx @ ''gating_factor'') = Some t'
        else sd' (pfx @ ''gating_factor'') = Some t"
    by blast
  have 1: "size_dim t 1 = Inr (n_head cfg) \<longrightarrow>
            (\<exists>t'. permute_0213 t = Inr t' \<and> sd' (pfx @ ''gating_factor'') = Some t')"
    using n r by auto
  have 2: "shape t = [1, n_head cfg, 1, 1] \<and> wf_tensor t \<longrightarrow>
            sd' (pfx @ ''gating_factor'') = Some (Tensor [1, 1, n_head cfg, 1] (elems t))"
  proof
    assume a: "shape t = [1, n_head cfg, 1, 1] \<and> wf_tensor t"
    then have "n = n_head cfg" using n by (simp add: size_dim_def)
    moreover have "permute_0213 t = Inr (Tensor [1, 1, n_head cfg, 1] (elems t))"
      using a by (intro permute_old_layout) (simp_all add: wf_tensor_def numel_def)
    ultimately show "sd' (pfx @ ''gating_factor'') = Some (Tensor [1, 1, n_head cfg, 1] (elems t))"
      using r by auto
  qed
  have 3: "shape t = [1, 1, n_head cfg, 1] \<and> n_head cfg > 1 \<longrightarrow>
            sd' (pfx @ ''gating_factor'') = Some t"
    using n r by (auto simp: size_dim_def)
  have 4: "\<forall>m. size_dim t 1 = Inr m \<and> m \<noteq> n_head cfg \<longrightarrow>
            sd' (pfx @ ''gating_factor'') = Some t"
    using n r by auto
  from 1 2 3 4 show ?thesis by blast
qed

lemmas ex_load_defs = ex_attn_def ex_state_dict_def ex_qkv_reassemble_def ex_super_load_def
  ex_config_def CausalSelfAttention_def CausalSelfAttention_load_from_state_dict_def
  CausalSelfAttention_mapping_def convert_gating_factor_def convert_legacy_def get_config_def
  bind_err_def size_dim_def permute_0213_def Let_def

lemma ex_load_ok:
  "\<exists>sd' self'. CausalSelfAttention_load_from_state_dict ex_qkv_reassemble ex_super_load ex_attn
       ex_state_dict ''h.2.attn.'' = Inr (sd', self')"
  by (simp add: ex_load_defs)

lemma ex_attn_config: "get_config ex_attn = Inr ex_config"
  by (simp add: ex_attn_def CausalSelfAttention_def Let_def ex_config_def get_config_def)

theorem C7_gating_factor_layout_witness:
  "\<exists>sd' self'. CausalSelfAttention_load_from_state_dict ex_qkv_reassemble ex_super_load ex_attn
       ex_state_dict ''h.2.attn.'' = Inr (sd', self')
     \<and> get_config ex_attn = Inr ex_config
     \<and> ex_state_dict (''h.2.attn.'' @ ''gating_factor'') = Some (Tensor [1, 2, 1, 1] [5, 7])
     \<and> sd' (''h.2.attn.'' @ ''gating_factor'') = Some (Tensor [1, 1, 2, 1] [5, 7])"
proof -
  from ex_load_ok obtain sd' self' where
    l: "CausalSelfAttention_load_from_state_dict ex_qkv_reassemble ex_super_load ex_attn
       ex_state_dict ''h.2.attn.'' = Inr (sd', self')"
    by blast
  have t: "ex_state_dict (''h.2.attn.'' @ ''gating_factor'') = Some (Tensor [1, 2, 1, 1] [5, 7])"
    by (simp add: ex_state_dict_def)
  have "n_head ex_config = 2" by (simp add: ex_config_def)
  with C7_gating_factor_layout[OF l ex_attn_config t]
  have "sd' (''h.2.attn.'' @ ''gating_factor'') = Some (Tensor [1, 1, 2, 1] [5, 7])"
    by (simp add: wf_tensor_def numel_def)
  with l ex_attn_config t show ?thesis by blast
qed

lemma load_remap_first:
  "CausalSelfAttention_load_from_state_dict qk sl self
      (map_old_state_dict_weights sd CausalSelfAttention_mapping pfx) pfx
   = CausalSelfAttention_load_from_state_dict qk sl self sd pfx"
  by (simp add: CausalSelfAttention_load_from_state_dict_def
      map_old_idem[OF mapping_props(1,3)])

lemma map_old_rename_keys:
  assumes "distinct (map fst m)" "distinct (map snd m)"
    "set (map fst m) \<inter> set (map snd m) = {}"
  shows "map_old_state_dict_weights sd m pfx = rename_keys m pfx sd"
proof
  fix k
  show "map_old_state_dict_weights sd m pfx k = rename_keys m pfx sd k"
  proof (cases "k \<in> set (map (\<lambda>e. pfx @ fst e) m)")
    case True
    then obtain e where "e \<in> set m" "k = pfx @ fst e" by auto
    with map_old_old[OF assms(1,3), of e sd pfx] True show ?thesis
      by (simp add: rename_keys_def)
  next
    case False
    show ?thesis
    proof (cases "find (\<lambda>e. k = pfx @ snd e) m")
      case None
      then have "\<forall>e \<in> set m. k \<noteq> pfx @ snd e"
        unfolding find_None_iff by blast
      moreover from False have "\<forall>e \<in> set m. k \<noteq> pfx @ fst e"
        by auto
      ultimately have "\<forall>e \<in> set m. k \<noteq> pfx @ fst e \<and> k \<noteq> pfx @ snd e"
        by blast
      from map_old_other[OF this] None False show ?thesis
        by (simp add: rename_keys_def)
    next
      case (Some e)
      then have e: "e \<in> set m" "k = pfx @ snd e"
        by (auto simp: find_Some_iff)
      from map_old_new[OF assms e(1), of sd pfx] Some False e(2) show ?thesis
        by (simp add: rename_keys_def split: option.splits)
    qed
  qed
qed

lemma load_tables:
  "map_old_state_dict_weights sd GPT_mapping pfx
     = rename_keys [(''lm_head.weight'', ''lm_head.linear.weight''),
                    (''lm_head.bias'', ''lm_head.linear.bias'')] pfx sd"
  "map_old_state_dict_weights sd CausalSelfAttention_mapping pfx
     = rename_keys [(''qkv.weight'', ''qkv.linear.weight''), (''qkv.bias'', ''qkv.linear.bias''),
                    (''proj.weight'', ''proj.linear.weight''),
                    (''proj.bias'', ''proj.linear.bias'')] pfx sd"
  "map_old_state_dict_weights sd GptNeoxMLP_mapping pfx
     = rename_keys [(''fc.weight'', ''fc.linear.weight''), (''fc.bias'', ''fc.linear.bias''),
                    (''proj.weight'', ''proj.linear.weight''),
                    (''proj.bias'', ''proj.linear.bias'')] pfx sd"
  "map_old_state_dict_weights sd LLaMAMLP_mapping pfx
     = rename_keys [(''fc_1.weight'', ''fc_1.linear.weight''),
                    (''fc_1.bias'', ''fc_1.linear.bias''),
                    (''fc_2.weight'', ''fc_2.linear.weight''),
                    (''fc_2.bias'', ''fc_2.linear.bias''),
                    (''proj.weight'', ''proj.linear.weight''),
                    (''proj.bias'', ''proj.linear.bias'')] pfx sd"
  "map_old_state_dict_weights sd LLaMAMoE_mapping pfx
     = rename_keys [(''gate.weight'', ''gate.linear.weight'')] pfx sd"
proof -
  have r: "map_old_state_dict_weights sd m pfx = rename_keys m pfx sd"
    if "m \<in> {GPT_mapping, CausalSelfAttention_mapping, GptNeoxMLP_mapping,
                 LLaMAMLP_mapping, LLaMAMoE_mapping}" for m
    by (rule map_old_rename_keys[OF mapping_props[OF that]])
  have "map_old_state_dict_weights sd GPT_mapping pfx = rename_keys GPT_mapping pfx sd"
    by (rule r) simp
  then show "map_old_state_dict_weights sd GPT_mapping pfx
     = rename_keys [(''lm_head.weight'', ''lm_head.linear.weight''),
                    (''lm_head.bias'', ''lm_head.linear.bias'')] pfx sd"
    by (simp only: GPT_mapping_def)
  have "map_old_state_dict_weights sd CausalSelfAttention_mapping pfx
          = rename_keys CausalSelfAttention_mapping pfx sd"
    by (rule r) simp
  then show "map_old_state_dict_weights sd CausalSelfAttention_mapping pfx
     = rename_keys [(''qkv.weight'', ''qkv.linear.weight''), (''qkv.bias'', ''qkv.linear.bias''),
                    (''proj.weight'', ''proj.linear.weight''),
                    (''proj.bias'', ''proj.linear.bias'')] pfx sd"
    by (simp only: CausalSelfAttention_mapping_def)
  have "map_old_state_dict_weights sd GptNeoxMLP_mapping pfx
          = rename_keys GptNeoxMLP_mapping pfx sd"
    by (rule r) simp
  then show "map_old_state_dict_weights sd GptNeoxMLP_mapping pfx
     = rename_keys [(''fc.weight'', ''fc.linear.weight''), (''fc.bias'', ''fc.linear.bias''),
                    (''proj.weight'', ''proj.linear.weight''),
                    (''proj.bias'', ''proj.linear.bias'')] pfx sd"
    by (simp only: GptNeoxMLP_mapping_def)
  have "map_old_state_dict_weights sd LLaMAMLP_mapping pfx
          = rename_keys LLaMAMLP_mapping pfx sd"
    by (rule r) simp
  then show "map_old_state_dict_weights sd LLaMAMLP_mapping pfx
     = rename_keys [(''fc_1.weight'', ''fc_1.linear.weight''),
                    (''fc_1.bias'', ''fc_1.linear.bias''),
                    (''fc_2.weight'', ''fc_2.linear.weight''),
                    (''fc_2.bias'', ''fc_2.linear.bias''),
                    (''proj.weight'', ''proj.linear.weight''),
                    (''proj.bias'', ''proj.linear.bias'')] pfx sd"
    by (simp only: LLaMAMLP_mapping_def)
  have "map_old_state_dict_weights sd LLaMAMoE_mapping pfx
          = rename_keys LLaMAMoE_mapping pfx sd"
    by (rule r) simp
  then show "map_old_state_dict_weights sd LLaMAMoE_mapping pfx
     = rename_keys [(''gate.weight'', ''gate.linear.weight'')] pfx sd"
    by (simp only: LLaMAMoE_mapping_def)
qed

lemma load_steps:
  assumes "CausalSelfAttention_load_from_state_dict qk sl self sd pfx = Inr (sd', self')"
  obtains sd1 sd2 where
    "convert_gating_factor self
        (map_old_state_dict_weights sd CausalSelfAttention_mapping pfx) pfx = Inr sd1"
    "convert_legacy qk self pfx ''weight'' sd1 = Inr sd2"
    "convert_legacy qk self pfx ''bias'' sd2 = Inr sd'"
  using assms
  by (auto simp: CausalSelfAttention_load_from_state_dict_def bind_err_def split: sum.splits)

lemma load_other_keys:
  assumes l: "CausalSelfAttention_load_from_state_dict qk sl self sd pfx = Inr (sd', self')"
    and k: "k \<notin> {pfx @ ''gating_factor'', pfx @ ''attn.linear.weight'',
                       pfx @ ''attn.linear.bias'', pfx @ ''qkv.linear.weight'',
                       pfx @ ''qkv.linear.bias''}"
  shows "sd' k = map_old_state_dict_weights sd CausalSelfAttention_mapping pfx k"
proof -
  from load_steps[OF l] obtain sd1 sd2 where
    g: "convert_gating_factor self
        (map_old_state_dict_weights sd CausalSelfAttention_mapping pfx) pfx = Inr sd1"
    and w: "convert_legacy qk self pfx ''weight'' sd1 = Inr sd2"
    and b: "convert_legacy qk self pfx ''bias'' sd2 = Inr sd'"
    by blast
  have "sd' k = sd2 k" using k by (intro convert_legacy_other[OF b]) auto
  also have "\<dots> = sd1 k" using k by (intro convert_legacy_other[OF w]) auto
  also have "\<dots> = map_old_state_dict_weights sd CausalSelfAttention_mapping pfx k"
    using k by (intro convert_gating_factor_other[OF g]) auto
  finally show ?thesis .
qed

lemma load_no_legacy:
  assumes l: "CausalSelfAttention_load_from_state_dict qk sl self sd pfx = Inr (sd', self')"
    and a: "attr = ''weight'' \<or> attr = ''bias''"
    and n: "sd (pfx @ ''attn.linear.'' @ attr) = None"
  shows "sd' (pfx @ ''qkv.linear.'' @ attr)
     = map_old_state_dict_weights sd CausalSelfAttention_mapping pfx (pfx @ ''qkv.linear.'' @ attr)"
proof -
  let ?sd0 = "map_old_state_dict_weights sd CausalSelfAttention_mapping pfx"
  from load_steps[OF l] obtain sd1 sd2 where
    g: "convert_gating_factor self ?sd0 pfx = Inr sd1"
    and w: "convert_legacy qk self pfx ''weight'' sd1 = Inr sd2"
    and b: "convert_legacy qk self pfx ''bias'' sd2 = Inr sd'"
    by blast
  have "?sd0 (pfx @ ''attn.linear.'' @ attr) = sd (pfx @ ''attn.linear.'' @ attr)"
    using a by (intro map_old_other) (auto simp: CausalSelfAttention_mapping_def)
  moreover have "sd1 (pfx @ ''attn.linear.'' @ attr) = ?sd0 (pfx @ ''attn.linear.'' @ attr)"
    using a by (intro convert_gating_factor_other[OF g]) auto
  ultimately have 1: "sd1 (pfx @ ''attn.linear.'' @ attr) = None" using n by simp
  have q1: "sd1 (pfx @ ''qkv.linear.'' @ attr) = ?sd0 (pfx @ ''qkv.linear.'' @ attr)"
    using a by (intro convert_gating_factor_other[OF g]) auto
  from a show ?thesis
  proof
    assume aw: "attr = ''weight''"
    from convert_legacy_Inr[OF w] 1 aw have "sd2 = sd1" by auto
    moreover have "sd' (pfx @ ''qkv.linear.weight'') = sd2 (pfx @ ''qkv.linear.weight'')"
      by (rule convert_legacy_other[OF b]) auto
    ultimately show ?thesis using q1 aw by simp
  next
    assume ab: "attr = ''bias''"
    have "sd2 (pfx @ ''attn.linear.bias'') = sd1 (pfx @ ''attn.linear.bias'')"
      by (rule convert_legacy_other[OF w]) auto
    with 1 ab have "sd2 (pfx @ ''attn.linear.bias'') = None" by simp
    with convert_legacy_Inr[OF b] have "sd' = sd2" by auto
    moreover have "sd2 (pfx @ ''qkv.linear.bias'') = sd1 (pfx @ ''qkv.linear.bias'')"
      by (rule convert_legacy_other[OF w]) auto
    ultimately show ?thesis using q1 ab by simp
  qed
qed

text \<open>
  Claim C5. Each loader hands to the inherited loader the state dict with the same tensors
  under the new names, and loading that state dict gives the same result as loading the
  original one. The renamings are \<open>lm_head.weight\<close>, \<open>lm_head.bias\<close> to
  \<open>lm_head.linear.weight\<close>, \<open>lm_head.linear.bias\<close> for the model; \<open>fc\<close> and \<open>proj\<close>
  (weight and bias) to \<open>fc.linear\<close> and \<open>proj.linear\<close> for \<open>GptNeoxMLP\<close>; \<open>fc_1\<close>, \<open>fc_2\<close>
  and \<open>proj\<close> to their \<open>.linear.\<close> keys for \<open>LLaMAMLP\<close>; \<open>gate.weight\<close> to
  \<open>gate.linear.weight\<close> for \<open>LLaMAMoE\<close>; \<open>qkv\<close> and \<open>proj\<close> to \<open>qkv.linear\<close> and
  \<open>proj.linear\<close> for the attention. The attention loader also replaces a legacy
  \<open>attn.linear.weight\<close> or \<open>attn.linear.bias\<close> by \<open>qkv_reassemble\<close> of it under
  \<open>qkv.linear.weight\<close> or \<open>qkv.linear.bias\<close>; without a legacy key the \<open>qkv.linear\<close> entry
  is the renamed one.
\<close>

theorem C5_old_names_load_as_new:
  "GPT_load_from_state_dict sl1 self1 sd pfx
       = (rename_keys
           [(''lm_head.weight'', ''lm_head.linear.weight''),
            (''lm_head.bias'', ''lm_head.linear.bias'')] pfx sd,
          sl1 self1
            (rename_keys
           [(''lm_head.weight'', ''lm_head.linear.weight''),
            (''lm_head.bias'', ''lm_head.linear.bias'')] pfx sd) pfx)
   \<and> GPT_load_from_state_dict sl1 self1
         (rename_keys
           [(''lm_head.weight'', ''lm_head.linear.weight''),
            (''lm_head.bias'', ''lm_head.linear.bias'')] pfx sd) pfx
       = GPT_load_from_state_dict sl1 self1 sd pfx
   \<and> GptNeoxMLP_load_from_state_dict sl1 self1 sd pfx
       = (rename_keys
           [(''fc.weight'', ''fc.linear.weight''), (''fc.bias'', ''fc.linear.bias''),
            (''proj.weight'', ''proj.linear.weight''), (''proj.bias'', ''proj.linear.bias'')] pfx sd,
          sl1 self1
            (rename_keys
           [(''fc.weight'', ''fc.linear.weight''), (''fc.bias'', ''fc.linear.bias''),
            (''proj.weight'', ''proj.linear.weight''), (''proj.bias'', ''proj.linear.bias'')] pfx sd) pfx)
   \<and> GptNeoxMLP_load_from_state_dict sl1 self1
         (rename_keys
           [(''fc.weight'', ''fc.linear.weight''), (''fc.bias'', ''fc.linear.bias''),
            (''proj.weight'', ''proj.linear.weight''), (''proj.bias'', ''proj.linear.bias'')] pfx sd) pfx
       = GptNeoxMLP_load_from_state_dict sl1 self1 sd pfx
   \<and> LLaMAMLP_load_from_state_dict sl1 self1 sd pfx
       = (rename_keys
           [(''fc_1.weight'', ''fc_1.linear.weight''), (''fc_1.bias'', ''fc_1.linear.bias''),
            (''fc_2.weight'', ''fc_2.linear.weight''), (''fc_2.bias'', ''fc_2.linear.bias''),
            (''proj.weight'', ''proj.linear.weight''), (''proj.bias'', ''proj.linear.bias'')] pfx sd,
          sl1 self1
            (rename_keys
           [(''fc_1.weight'', ''fc_1.linear.weight''), (''fc_1.bias'', ''fc_1.linear.bias''),
            (''fc_2.weight'', ''fc_2.linear.weight''), (''fc_2.bias'', ''fc_2.linear.bias''),
            (''proj.weight'', ''proj.linear.weight''), (''proj.bias'', ''proj.linear.bias'')] pfx sd) pfx)
   \<and> LLaMAMLP_load_from_state_dict sl1 self1
         (rename_keys
           [(''fc_1.weight'', ''fc_1.linear.weight''), (''fc_1.bias'', ''fc_1.linear.bias''),
            (''fc_2.weight'', ''fc_2.linear.weight''), (''fc_2.bias'', ''fc_2.linear.bias''),
            (''proj.weight'', ''proj.linear.weight''), (''proj.bias'', ''proj.linear.bias'')] pfx sd) pfx
       = LLaMAMLP_load_from_state_dict sl1 self1 sd pfx
   \<and> LLaMAMoE_load_from_state_dict sl1 self1 sd pfx
       = (rename_keys
           [(''gate.weight'', ''gate.linear.weight'')] pfx sd,
          sl1 self1
            (rename_keys
           [(''gate.weight'', ''gate.linear.weight'')] pfx sd) pfx)
   \<and> LLaMAMoE_load_from_state_dict sl1 self1
         (rename_keys
           [(''gate.weight'', ''gate.linear.weight'')] pfx sd) pfx
       = LLaMAMoE_load_from_state_dict sl1 self1 sd pfx
   \<and> CausalSelfAttention_load_from_state_dict qk sl self
         (rename_keys
           [(''qkv.weight'', ''qkv.linear.weight''), (''qkv.bias'', ''qkv.linear.bias''),
            (''proj.weight'', ''proj.linear.weight''), (''proj.bias'', ''proj.linear.bias'')] pfx sd) pfx
       = CausalSelfAttention_load_from_state_dict qk sl self sd pfx
   \<and> (\<forall>sd' self'.
        CausalSelfAttention_load_from_state_dict qk sl self sd pfx = Inr (sd', self') \<longrightarrow>
          self' = sl self sd' pfx
          \<and> (\<forall>k. k \<notin> {pfx @ ''gating_factor'', pfx @ ''attn.linear.weight'',
                       pfx @ ''attn.linear.bias'', pfx @ ''qkv.linear.weight'',
                       pfx @ ''qkv.linear.bias''} \<longrightarrow>
                 sd' k = rename_keys
           [(''qkv.weight'', ''qkv.linear.weight''), (''qkv.bias'', ''qkv.linear.bias''),
            (''proj.weight'', ''proj.linear.weight''), (''proj.bias'', ''proj.linear.bias'')] pfx sd k)
          \<and> (\<forall>attr \<in> {''weight'', ''bias''}.
                case sd (pfx @ ''attn.linear.'' @ attr) of
                  Some t \<Rightarrow>
                    (\<exists>cfg t'. get_config self = Inr cfg \<and> qk t cfg = Inr t'
                       \<and> sd' (pfx @ ''qkv.linear.'' @ attr) = Some t'
                       \<and> sd' (pfx @ ''attn.linear.'' @ attr) = None)
                | None \<Rightarrow>
                    sd' (pfx @ ''qkv.linear.'' @ attr)
                      = rename_keys
           [(''qkv.weight'', ''qkv.linear.weight''), (''qkv.bias'', ''qkv.linear.bias''),
            (''proj.weight'', ''proj.linear.weight''), (''proj.bias'', ''proj.linear.bias'')] pfx sd (pfx @ ''qkv.linear.'' @ attr)))"
proof -
  have simple:
    "GPT_load_from_state_dict sl1 self1 sd pfx
       = (map_old_state_dict_weights sd GPT_mapping pfx,
          sl1 self1 (map_old_state_dict_weights sd GPT_mapping pfx) pfx)"
    "GptNeoxMLP_load_from_state_dict sl1 self1 sd pfx
       = (map_old_state_dict_weights sd GptNeoxMLP_mapping pfx,
          sl1 self1 (map_old_state_dict_weights sd GptNeoxMLP_mapping pfx) pfx)"
    "LLaMAMLP_load_from_state_dict sl1 self1 sd pfx
       = (map_old_state_dict_weights sd LLaMAMLP_mapping pfx,
          sl1 self1 (map_old_state_dict_weights sd LLaMAMLP_mapping pfx) pfx)"
    "LLaMAMoE_load_from_state_dict sl1 self1 sd pfx
       = (map_old_state_dict_weights sd LLaMAMoE_mapping pfx,
          sl1 self1 (map_old_state_dict_weights sd LLaMAMoE_mapping pfx) pfx)"
    by (simp_all add: GPT_load_from_state_dict_def GptNeoxMLP_load_from_state_dict_def
        LLaMAMLP_load_from_state_dict_def LLaMAMoE_load_from_state_dict_def Let_def)
  have again:
    "GPT_load_from_state_dict sl1 self1 (map_old_state_dict_weights sd GPT_mapping pfx) pfx
       = GPT_load_from_state_dict sl1 self1 sd pfx"
    "GptNeoxMLP_load_from_state_dict sl1 self1
         (map_old_state_dict_weights sd GptNeoxMLP_mapping pfx) pfx
       = GptNeoxMLP_load_from_state_dict sl1 self1 sd pfx"
    "LLaMAMLP_load_from_state_dict sl1 self1
         (map_old_state_dict_weights sd LLaMAMLP_mapping pfx) pfx
       = LLaMAMLP_load_from_state_dict sl1 self1 sd pfx"
    "LLaMAMoE_load_from_state_dict sl1 self1
         (map_old_state_dict_weights sd LLaMAMoE_mapping pfx) pfx
       = LLaMAMoE_load_from_state_dict sl1 self1 sd pfx"
    by (simp_all add: GPT_load_from_state_dict_def GptNeoxMLP_load_from_state_dict_def
        LLaMAMLP_load_from_state_dict_def LLaMAMoE_load_from_state_dict_def Let_def
        map_old_idem[OF mapping_props(1,3)])
  have res: "self' = sl self sd' pfx
          \<and> (\<forall>k. k \<notin> {pfx @ ''gating_factor'', pfx @ ''attn.linear.weight'',
                       pfx @ ''attn.linear.bias'', pfx @ ''qkv.linear.weight'',
                       pfx @ ''qkv.linear.bias''} \<longrightarrow>
                 sd' k = map_old_state_dict_weights sd CausalSelfAttention_mapping pfx k)
          \<and> (\<forall>attr \<in> {''weight'', ''bias''}.
                case sd (pfx @ ''attn.linear.'' @ attr) of
                  Some t \<Rightarrow>
                    (\<exists>cfg t'. get_config self = Inr cfg \<and> qk t cfg = Inr t'
                       \<and> sd' (pfx @ ''qkv.linear.'' @ attr) = Some t'
                       \<and> sd' (pfx @ ''attn.linear.'' @ attr) = None)
                | None \<Rightarrow>
                    sd' (pfx @ ''qkv.linear.'' @ attr)
                      = map_old_state_dict_weights sd CausalSelfAttention_mapping pfx
                          (pfx @ ''qkv.linear.'' @ attr))"
    if l: "CausalSelfAttention_load_from_state_dict qk sl self sd pfx = Inr (sd', self')"
    for sd' self'
  proof (intro conjI ballI allI impI)
    show "self' = sl self sd' pfx" by (rule load_super[OF l])
  next
    fix k
    assume "k \<notin> {pfx @ ''gating_factor'', pfx @ ''attn.linear.weight'',
                       pfx @ ''attn.linear.bias'', pfx @ ''qkv.linear.weight'',
                       pfx @ ''qkv.linear.bias''}"
    then show "sd' k = map_old_state_dict_weights sd CausalSelfAttention_mapping pfx k"
      by (rule load_other_keys[OF l])
  next
    fix attr :: string
    assume "attr \<in> {''weight'', ''bias''}"
    then have a: "attr = ''weight'' \<or> attr = ''bias''" by auto
    show "case sd (pfx @ ''attn.linear.'' @ attr) of
                  Some t \<Rightarrow>
                    (\<exists>cfg t'. get_config self = Inr cfg \<and> qk t cfg = Inr t'
                       \<and> sd' (pfx @ ''qkv.linear.'' @ attr) = Some t'
                       \<and> sd' (pfx @ ''attn.linear.'' @ attr) = None)
                | None \<Rightarrow>
                    sd' (pfx @ ''qkv.linear.'' @ attr)
                      = map_old_state_dict_weights sd CausalSelfAttention_mapping pfx
                          (pfx @ ''qkv.linear.'' @ attr)"
    proof (cases "sd (pfx @ ''attn.linear.'' @ attr)")
      case None
      with load_no_legacy[OF l a] show ?thesis by simp
    next
      case (Some t)
      with load_legacy[OF l a] show ?thesis by simp
    qed
  qed
  have D: "\<forall>sd' self'.
        CausalSelfAttention_load_from_state_dict qk sl self sd pfx = Inr (sd', self') \<longrightarrow>
          self' = sl self sd' pfx
          \<and> (\<forall>k. k \<notin> {pfx @ ''gating_factor'', pfx @ ''attn.linear.weight'',
                       pfx @ ''attn.linear.bias'', pfx @ ''qkv.linear.weight'',
                       pfx @ ''qkv.linear.bias''} \<longrightarrow>
                 sd' k = map_old_state_dict_weights sd CausalSelfAttention_mapping pfx k)
          \<and> (\<forall>attr \<in> {''weight'', ''bias''}.
                case sd (pfx @ ''attn.linear.'' @ attr) of
                  Some t \<Rightarrow>
                    (\<exists>cfg t'. get_config self = Inr cfg \<and> qk t cfg = Inr t'
                       \<and> sd' (pfx @ ''qkv.linear.'' @ attr) = Some t'
                       \<and> sd' (pfx @ ''attn.linear.'' @ attr) = None)
                | None \<Rightarrow>
                    sd' (pfx @ ''qkv.linear.'' @ attr)
                      = map_old_state_dict_weights sd CausalSelfAttention_mapping pfx
                          (pfx @ ''qkv.linear.'' @ attr))"
    by (intro allI impI) (rule res)
  show ?thesis
    by (intro conjI simple[unfolded load_tables] again[unfolded load_tables]
        load_remap_first[unfolded load_tables] D[unfolded load_tables])
qed

lemmas ex_checkpoint_defs = rename_keys_def ex_gpt_checkpoint_def ex_neox_checkpoint_def
  ex_llama_checkpoint_def ex_moe_checkpoint_def ex_state_dict_def

theorem C5_old_names_load_as_new_witness:
  "map (fst (GPT_load_from_state_dict ex_super_load ex_attn ex_gpt_checkpoint []))
      [''lm_head.linear.weight'', ''lm_head.linear.bias'', ''lm_head.weight'', ''lm_head.bias'']
     = [Some (Tensor [1] [1]), Some (Tensor [1] [2]), None, None]
   \<and> map (fst (GptNeoxMLP_load_from_state_dict ex_super_load ex_attn ex_neox_checkpoint
              ''h.0.mlp.''))
      [''h.0.mlp.fc.linear.weight'', ''h.0.mlp.fc.linear.bias'', ''h.0.mlp.proj.linear.weight'',
       ''h.0.mlp.proj.linear.bias'', ''h.0.mlp.fc.weight'', ''h.0.mlp.fc.bias'',
       ''h.0.mlp.proj.weight'', ''h.0.mlp.proj.bias'']
     = [Some (Tensor [1] [1]), Some (Tensor [1] [2]), Some (Tensor [1] [3]),
        Some (Tensor [1] [4]), None, None, None, None]
   \<and> map (fst (LLaMAMLP_load_from_state_dict ex_super_load ex_attn ex_llama_checkpoint
              ''h.0.mlp.''))
      [''h.0.mlp.fc_1.linear.weight'', ''h.0.mlp.fc_1.linear.bias'',
       ''h.0.mlp.fc_2.linear.weight'', ''h.0.mlp.fc_2.linear.bias'',
       ''h.0.mlp.proj.linear.weight'', ''h.0.mlp.proj.linear.bias'',
       ''h.0.mlp.fc_1.weight'', ''h.0.mlp.fc_1.bias'', ''h.0.mlp.fc_2.weight'',
       ''h.0.mlp.fc_2.bias'', ''h.0.mlp.proj.weight'', ''h.0.mlp.proj.bias'']
     = [Some (Tensor [1] [1]), Some (Tensor [1] [2]), Some (Tensor [1] [3]),
        Some (Tensor [1] [4]), Some (Tensor [1] [5]), Some (Tensor [1] [6]),
        None, None, None, None, None, None]
   \<and> map (fst (LLaMAMoE_load_from_state_dict ex_super_load ex_attn ex_moe_checkpoint
              ''h.0.mlp.''))
      [''h.0.mlp.gate.linear.weight'', ''h.0.mlp.gate.weight'']
     = [Some (Tensor [1] [1]), None]
   \<and> (\<exists>sd' self'. CausalSelfAttention_load_from_state_dict ex_qkv_reassemble ex_super_load
           ex_attn ex_state_dict ''h.2.attn.'' = Inr (sd', self')
         \<and> map sd'
              [''h.2.attn.qkv.linear.weight'', ''h.2.attn.qkv.linear.bias'',
               ''h.2.attn.proj.linear.weight'', ''h.2.attn.proj.linear.bias'',
               ''h.2.attn.qkv.weight'', ''h.2.attn.qkv.bias'', ''h.2.attn.proj.weight'',
               ''h.2.attn.proj.bias'', ''h.2.attn.attn.linear.bias'']
             = [Some (Tensor [1, 1] [3]), Some (Tensor [1] [4]), Some (Tensor [1, 1] [9]),
                Some (Tensor [1] [10]), None, None, None, None, None])"
proof -
  note g = C5_old_names_load_as_new[where sd = ex_gpt_checkpoint and pfx = "[]"
      and ?sl1.0 = ex_super_load and ?self1.0 = ex_attn, THEN conjunct1]
  note n = C5_old_names_load_as_new[where sd = ex_neox_checkpoint and pfx = "''h.0.mlp.''"
      and ?sl1.0 = ex_super_load and ?self1.0 = ex_attn,
      THEN conjunct2, THEN conjunct2, THEN conjunct1]
  note ll = C5_old_names_load_as_new[where sd = ex_llama_checkpoint and pfx = "''h.0.mlp.''"
      and ?sl1.0 = ex_super_load and ?self1.0 = ex_attn,
      THEN conjunct2, THEN conjunct2, THEN conjunct2, THEN conjunct2, THEN conjunct1]
  note mo = C5_old_names_load_as_new[where sd = ex_moe_checkpoint and pfx = "''h.0.mlp.''"
      and ?sl1.0 = ex_super_load and ?self1.0 = ex_attn,
      THEN conjunct2, THEN conjunct2, THEN conjunct2, THEN conjunct2, THEN conjunct2,
      THEN conjunct2, THEN conjunct1]
  note at = C5_old_names_load_as_new[where sd = ex_state_dict and pfx = "''h.2.attn.''"
      and qk = ex_qkv_reassemble and sl = ex_super_load and self = ex_attn
      and ?sl1.0 = ex_super_load and ?self1.0 = ex_attn,
      THEN conjunct2, THEN conjunct2, THEN conjunct2, THEN conjunct2, THEN conjunct2,
      THEN conjunct2, THEN conjunct2, THEN conjunct2, THEN conjunct2]
  have 1: "map (fst (GPT_load_from_state_dict ex_super_load ex_attn ex_gpt_checkpoint []))
      [''lm_head.linear.weight'', ''lm_head.linear.bias'', ''lm_head.weight'', ''lm_head.bias'']
     = [Some (Tensor [1] [1]), Some (Tensor [1] [2]), None, None]"
    unfolding g by (simp add: ex_checkpoint_defs)
  have 2: "map (fst (GptNeoxMLP_load_from_state_dict ex_super_load ex_attn ex_neox_checkpoint
              ''h.0.mlp.''))
      [''h.0.mlp.fc.linear.weight'', ''h.0.mlp.fc.linear.bias'', ''h.0.mlp.proj.linear.weight'',
       ''h.0.mlp.proj.linear.bias'', ''h.0.mlp.fc.weight'', ''h.0.mlp.fc.bias'',
       ''h.0.mlp.proj.weight'', ''h.0.mlp.proj.bias'']
     = [Some (Tensor [1] [1]), Some (Tensor [1] [2]), Some (Tensor [1] [3]),
        Some (Tensor [1] [4]), None, None, None, None]"
    unfolding n by (simp add: ex_checkpoint_defs)
  have 3: "map (fst (LLaMAMLP_load_from_state_dict ex_super_load ex_attn ex_llama_checkpoint
              ''h.0.mlp.''))
      [''h.0.mlp.fc_1.linear.weight'', ''h.0.mlp.fc_1.linear.bias'',
       ''h.0.mlp.fc_2.linear.weight'', ''h.0.mlp.fc_2.linear.bias'',
       ''h.0.mlp.proj.linear.weight'', ''h.0.mlp.proj.linear.bias'',
       ''h.0.mlp.fc_1.weight'', ''h.0.mlp.fc_1.bias'', ''h.0.mlp.fc_2.weight'',
       ''h.0.mlp.fc_2.bias'', ''h.0.mlp.proj.weight'', ''h.0.mlp.proj.bias'']
     = [Some (Tensor [1] [1]), Some (Tensor [1] [2]), Some (Tensor [1] [3]),
        Some (Tensor [1] [4]), Some (Tensor [1] [5]), Some (Tensor [1] [6]),
        None, None, None, None, None, None]"
    unfolding ll by (simp add: ex_checkpoint_defs)
  have 4: "map (fst (LLaMAMoE_load_from_state_dict ex_super_load ex_attn ex_moe_checkpoint
              ''h.0.mlp.''))
      [''h.0.mlp.gate.linear.weight'', ''h.0.mlp.gate.weight'']
     = [Some (Tensor [1] [1]), None]"
    unfolding mo by (simp add: ex_checkpoint_defs)
  from ex_load_ok obtain sd' self' where
    l: "CausalSelfAttention_load_from_state_dict ex_qkv_reassemble ex_super_load ex_attn
       ex_state_dict ''h.2.attn.'' = Inr (sd', self')"
    by blast
  note res = at[rule_format, OF l]
  note r = res[THEN conjunct2, THEN conjunct1, rule_format]
  note a = res[THEN conjunct2, THEN conjunct2, rule_format]
  have others: "sd' ''h.2.attn.proj.linear.weight'' = Some (Tensor [1, 1] [9])"
    "sd' ''h.2.attn.proj.linear.bias'' = Some (Tensor [1] [10])"
    "sd' ''h.2.attn.qkv.weight'' = None" "sd' ''h.2.attn.qkv.bias'' = None"
    "sd' ''h.2.attn.proj.weight'' = None" "sd' ''h.2.attn.proj.bias'' = None"
    using r[of "''h.2.attn.proj.linear.weight''"] r[of "''h.2.attn.proj.linear.bias''"]
      r[of "''h.2.attn.qkv.weight''"] r[of "''h.2.attn.qkv.bias''"]
      r[of "''h.2.attn.proj.weight''"] r[of "''h.2.attn.proj.bias''"]
    by (simp_all add: ex_checkpoint_defs)
  have w: "sd' ''h.2.attn.qkv.linear.weight'' = Some (Tensor [1, 1] [3])"
    using a[of "''weight''"] by (simp add: ex_checkpoint_defs)
  have b: "sd' ''h.2.attn.qkv.linear.bias'' = Some (Tensor [1] [4])
      \<and> sd' ''h.2.attn.attn.linear.bias'' = None"
    using a[of "''bias''"] by (simp add: ex_checkpoint_defs ex_qkv_reassemble_def)
  have 5: "map sd'
              [''h.2.attn.qkv.linear.weight'', ''h.2.attn.qkv.linear.bias'',
               ''h.2.attn.proj.linear.weight'', ''h.2.attn.proj.linear.bias'',
               ''h.2.attn.qkv.weight'', ''h.2.attn.qkv.bias'', ''h.2.attn.proj.weight'',
               ''h.2.attn.proj.bias'', ''h.2.attn.attn.linear.bias'']
             = [Some (Tensor [1, 1] [3]), Some (Tensor [1] [4]), Some (Tensor [1, 1] [9]),
                Some (Tensor [1] [10]), None, None, None, None, None]"
    using others w b by simp
  have 6: "\<exists>sd' self'. CausalSelfAttention_load_from_state_dict ex_qkv_reassemble ex_super_load
           ex_attn ex_state_dict ''h.2.attn.'' = Inr (sd', self')
         \<and> map sd'
              [''h.2.attn.qkv.linear.weight'', ''h.2.attn.qkv.linear.bias'',
               ''h.2.attn.proj.linear.weight'', ''h.2.attn.proj.linear.bias'',
               ''h.2.attn.qkv.weight'', ''h.2.attn.qkv.bias'', ''h.2.attn.proj.weight'',
               ''h.2.attn.proj.bias'', ''h.2.attn.attn.linear.bias'']
             = [Some (Tensor [1, 1] [3]), Some (Tensor [1] [4]), Some (Tensor [1, 1] [9]),
                Some (Tensor [1] [10]), None, None, None, None, None]"
    by (intro exI[of _ sd'] exI[of _ self'] conjI l 5)
  show ?thesis by (intro conjI 1 2 3 4 6)
qed

lemma ex_cap_model_eq:
  "ex_cap_model =
     \<lparr>config = ex_cap_config,
      lm_head = AdapterV2Linear ex_init 1 1 False,
      transformer = ModuleDict
        [(''wte'', Embedding ex_init 1 1), (''h'', ModuleList []), (''ln_f'', RMSNorm 1 0)],
      max_seq_length = 4, mask_cache = None,
      cos_buf = ones [4, 1], sin_buf = zeros [4, 1]\<rparr>"
  by (simp add: ex_cap_model_def GPT_def ex_cap_config_def ex_config_def bind_err_def
      ex_rope_cache_def norm_layer_def)

lemmas fw_defs = GPT_forward_def rope_and_mask_def ex_idx_def size_dim_def bind_err_def
  slice_to_def narrow_def ones_def zeros_def numel_def get_child_def ModuleDict_def
  Embedding_def Embedding_forward_def get_param_def Parameter_def randn_def ex_init_def row_def
  ex_cap_config_def ex_config_def ModuleList_def ex_base_def ex_norm_forward_def RMSNorm_def
  lm_head_logits_def split_tensor_def AdapterV2Linear_forward_def AdapterV2Linear_def
  Linear_def Linear_forward_def broadcast_last_def dot_def Let_def set_child_def softcap_def
  map_tensor_def

lemma chunked:
  "fst (GPT_forward ex_base ex_cap_model ex_idx None 1)
     = Inr (Chunks [Tensor [1, 1, 1] [1], Tensor [1, 1, 1] [1]])"
  unfolding ex_cap_model_eq
  by (simp add: fw_defs upt_rec)

lemma unchunked:
  "fst (GPT_forward ex_base ex_cap_model ex_idx None 0)
     = Inr (Logits (Tensor [1, 2, 1] [tanh 1, tanh 1]))"
  unfolding ex_cap_model_eq
  by (simp add: fw_defs upt_rec)

lemma cat_chunks:
  "cat 1 [Tensor [1, 1, 1] [1], Tensor [1, 1, 1] [1::real]] = Inr (Tensor [1, 2, 1] [1, 1])"
  by (simp add: cat_def numel_def)

text \<open>
  Claim C9, at a failing input: with \<open>final_logit_softcapping = 1\<close> the chunked call
  returns the logits of the head as they are (here 1 at both positions), their
  concatenation along dimension 1 is \<open>[1, 1]\<close>, and the unchunked call returns the
  soft-capped logits \<open>[tanh 1, tanh 1]\<close>, a different tensor.
\<close>

theorem C9_chunked_skips_softcapping:
  "final_logit_softcapping (config ex_cap_model) = Some 1
   \<and> fst (GPT_forward ex_base ex_cap_model ex_idx None 1)
       = Inr (Chunks [Tensor [1, 1, 1] [1], Tensor [1, 1, 1] [1]])
   \<and> cat 1 [Tensor [1, 1, 1] [1], Tensor [1, 1, 1] [1::real]] = Inr (Tensor [1, 2, 1] [1, 1])
   \<and> fst (GPT_forward ex_base ex_cap_model ex_idx None 0)
       = Inr (Logits (Tensor [1, 2, 1] [tanh 1, tanh 1]))
   \<and> Tensor [1, 2, 1] [tanh 1, tanh 1] \<noteq> Tensor [1, 2, 1] [1, 1::real]"
proof -
  have "tanh (1::real) \<noteq> 1"
    using tanh_real_lt_1[of 1] by simp
  then show ?thesis
    using chunked unchunked cat_chunks
    by (simp add: ex_cap_model_eq ex_cap_config_def)
qed

theorem C9_chunked_skips_softcapping_witness:
  "\<exists>ys y. fst (GPT_forward ex_base ex_cap_model ex_idx None 1) = Inr (Chunks ys)
     \<and> fst (GPT_forward ex_base ex_cap_model ex_idx None 0) = Inr (Logits y)
     \<and> cat 1 ys \<noteq> Inr y"
proof -
  from C9_chunked_skips_softcapping
  have "fst (GPT_forward ex_base ex_cap_model ex_idx None 1)
          = Inr (Chunks [Tensor [1, 1, 1] [1], Tensor [1, 1, 1] [1]])
     \<and> fst (GPT_forward ex_base ex_cap_model ex_idx None 0)
          = Inr (Logits (Tensor [1, 2, 1] [tanh 1, tanh 1]))
     \<and> cat 1 [Tensor [1, 1, 1] [1], Tensor [1, 1, 1] [1::real]]
          \<noteq> Inr (Tensor [1, 2, 1] [tanh 1, tanh 1])"
    by simp
  then show ?thesis by blast
qed










end
